theory Spec2Isabelle
  imports Complex_Main
begin

text \<open>
  The on-page engine of the PAYMINT browser extension: the three platform classes
  (Amazon, Netflix, Domino's) with their detection, price parsing, checkout
  extraction and gift-card redemption, the registry that chooses among them, and
  the content script that injects the pay button, debounces re-detection and takes
  commands from the background script.  Functions keep the names they have in the
  TypeScript sources; a prefix tells the platform class where three classes define
  the same method.  Exceptions are values of \<open>error + 'a\<close>, \<open>null\<close> is \<open>None\<close>, and what
  is asynchronous in the code is a sequence of events, each of which runs one
  uninterrupted piece of it.
\<close>

section \<open>JavaScript strings\<close>

text \<open>
  A JavaScript string is a sequence of UTF-16 code units.  The price texts of the
  platforms contain the pound, euro and rupee signs, which are outside ASCII, so a
  string is a list of code units (natural numbers); \<open>ustr\<close> embeds an ASCII literal.
\<close>

type_synonym jsstring = "nat list"

definition ustr :: "string \<Rightarrow> jsstring" where
  "ustr s = map of_char s"

definition DOLLAR :: nat where "DOLLAR = 0x24"
definition POUND :: nat where "POUND = 0xA3"
definition EURO :: nat where "EURO = 0x20AC"
definition RUPEE :: nat where "RUPEE = 0x20B9"
definition COMMA :: nat where "COMMA = 0x2C"
definition DOT :: nat where "DOT = 0x2E"
definition COLON :: nat where "COLON = 0x3A"
definition SLASH :: nat where "SLASH = 0x2F"
definition SPACE :: nat where "SPACE = 0x20"

text \<open>\<open>\d\<close> and \<open>[A-Z]\<close>.\<close>

definition is_digit :: "nat \<Rightarrow> bool" where
  "is_digit c = (0x30 \<le> c \<and> c \<le> 0x39)"

definition is_upper :: "nat \<Rightarrow> bool" where
  "is_upper c = (0x41 \<le> c \<and> c \<le> 0x5A)"

text \<open>
  \<open>\s\<close>, which is also what \<open>String.prototype.trim\<close> strips: the WhiteSpace and
  LineTerminator code points of ECMAScript.
\<close>

definition is_ws :: "nat \<Rightarrow> bool" where
  "is_ws c = (c \<in> set [0x09, 0x0A, 0x0B, 0x0C, 0x0D, 0x20, 0xA0, 0x1680, 0x2028, 0x2029,
                       0x202F, 0x205F, 0x3000, 0xFEFF] \<or> (0x2000 \<le> c \<and> c \<le> 0x200A))"

text \<open>\<open>s.includes(sub)\<close>.\<close>

fun starts_with :: "'a list \<Rightarrow> 'a list \<Rightarrow> bool" where
  "starts_with s [] = True"
| "starts_with [] (y # ys) = False"
| "starts_with (x # xs) (y # ys) = (x = y \<and> starts_with xs ys)"

fun str_includes :: "'a list \<Rightarrow> 'a list \<Rightarrow> bool" where
  "str_includes [] sub = (sub = [])"
| "str_includes (c # cs) sub = (starts_with (c # cs) sub \<or> str_includes cs sub)"

text \<open>\<open>s.replace(/\s+/g, ' ')\<close>: every maximal run of white space becomes one space.\<close>

function collapse_ws :: "jsstring \<Rightarrow> jsstring" where
  "collapse_ws [] = []"
| "collapse_ws (c # cs) =
     (if is_ws c then SPACE # collapse_ws (dropWhile is_ws cs) else c # collapse_ws cs)"
  by pat_completeness auto
termination
  by (relation "measure length") (auto simp: length_dropWhile_le less_Suc_eq_le)

text \<open>\<open>s.trim()\<close>.\<close>

definition trim :: "jsstring \<Rightarrow> jsstring" where
  "trim s = rev (dropWhile is_ws (rev (dropWhile is_ws s)))"

text \<open>The lower case of an ASCII letter; other code units are left alone.\<close>

definition lower_unit :: "nat \<Rightarrow> nat" where
  "lower_unit c = (if is_upper c then c + 0x20 else c)"

text \<open>\<open>s.replace(/,/g, '')\<close>.\<close>

definition strip_commas :: "jsstring \<Rightarrow> jsstring" where
  "strip_commas s = filter (\<lambda>c. c \<noteq> COMMA) s"

section \<open>parseFloat on decimal literals\<close>

text \<open>
  \<open>parseFloat\<close> reads the longest prefix that is a decimal literal and returns NaN
  (here \<open>None\<close>) when there is none.  The parsers below only pass it captures made of
  digits and at most one dot, so sign, exponent and the word \<open>Infinity\<close> are left out.
  The value is the exact decimal.  JavaScript has the nearest double instead: the
  two agree on what is a number and what is NaN, a decimal of more than 15
  significant digits may be rounded, and a capture of some 309 digits or more is
  the double \<open>Infinity\<close>, which is not NaN either.  Amounts are therefore exact only
  for prices of ordinary size.
\<close>

definition digits_value :: "jsstring \<Rightarrow> nat" where
  "digits_value ds = foldl (\<lambda>acc d. 10 * acc + (d - 0x30)) 0 ds"

definition parseFloat :: "jsstring \<Rightarrow> rat option" where
  "parseFloat s =
     (let t = dropWhile is_ws s;
          ip = takeWhile is_digit t;
          r = dropWhile is_digit t;
          fp = (case r of [] \<Rightarrow> [] | c # cs \<Rightarrow> if c = DOT then takeWhile is_digit cs else [])
      in if ip = [] \<and> fp = [] then None
         else Some (of_nat (digits_value ip) + of_nat (digits_value fp) / 10 ^ length fp))"

section \<open>Regular expressions\<close>

text \<open>
  The fragment of ECMAScript regular expressions that the price patterns use: single
  characters and classes, sequence, alternation, the greedy quantifiers \<open>?\<close> and \<open>*\<close>
  (\<open>+\<close> and \<open>{n}\<close> are derived), and numbered capture groups.  The matcher is the
  backtracking one of the language: \<open>rxm\<close> returns every way to match at the start of
  the input, in the priority order in which the engine would try them.
\<close>

datatype cclass = Ch nat | Digit | Space | Upper | OneOf "nat list"

datatype rx =
    Eps
  | Atom cclass
  | Seq rx rx
  | Alt rx rx
  | Opt rx
  | Star rx
  | Grp nat rx

text \<open>
  With the \<open>i\<close> flag both sides are compared after canonicalisation (upper-casing).
  It is written out for the ASCII letters and the basic Cyrillic ones, the only
  letters in the patterns.
\<close>

definition canon :: "nat \<Rightarrow> nat" where
  "canon c = (if 0x61 \<le> c \<and> c \<le> 0x7A then c - 0x20
              else if 0x430 \<le> c \<and> c \<le> 0x44F then c - 0x20 else c)"

fun cmatch :: "bool \<Rightarrow> cclass \<Rightarrow> nat \<Rightarrow> bool" where
  "cmatch ci (Ch k) c = (if ci then canon k = canon c else k = c)"
| "cmatch ci Digit c = is_digit c"
| "cmatch ci Space c = is_ws c"
| "cmatch ci Upper c = (if ci then is_upper (canon c) else is_upper c)"
| "cmatch ci (OneOf ks) c = (if ci then canon c \<in> set (map canon ks) else c \<in> set ks)"

type_synonym captures = "(nat \<times> jsstring) list"
type_synonym mstate = "jsstring \<times> captures"

text \<open>
  A greedy star first tries one more iteration of its body and then gives up the
  iteration; an iteration that consumes nothing is rejected, so the length of the
  remaining input bounds the number of iterations.
\<close>

primrec iter :: "(mstate \<Rightarrow> mstate list) \<Rightarrow> nat \<Rightarrow> mstate \<Rightarrow> mstate list" where
  "iter f 0 st = [st]"
| "iter f (Suc n) st =
     concat (map (iter f n) (filter (\<lambda>st'. length (fst st') < length (fst st)) (f st))) @ [st]"

primrec rxm :: "bool \<Rightarrow> rx \<Rightarrow> mstate \<Rightarrow> mstate list" where
  "rxm ci Eps st = [st]"
| "rxm ci (Atom k) st =
     (case fst st of [] \<Rightarrow> [] | c # cs \<Rightarrow> if cmatch ci k c then [(cs, snd st)] else [])"
| "rxm ci (Seq a b) st = concat (map (rxm ci b) (rxm ci a st))"
| "rxm ci (Alt a b) st = rxm ci a st @ rxm ci b st"
| "rxm ci (Opt a) st = rxm ci a st @ [st]"
| "rxm ci (Star a) st = iter (rxm ci a) (length (fst st)) st"
| "rxm ci (Grp n a) st =
     map (\<lambda>st'. (fst st', (n, take (length (fst st) - length (fst st')) (fst st)) # snd st'))
       (rxm ci a st)"

text \<open>
  \<open>s.match(re)\<close> for a pattern without the \<open>g\<close> flag: the leftmost start position at
  which the pattern matches, and there the first match in priority order.  The result
  maps group numbers to the captured texts.
\<close>

fun rx_exec :: "bool \<Rightarrow> rx \<Rightarrow> jsstring \<Rightarrow> captures option" where
  "rx_exec ci r [] = (case rxm ci r ([], []) of [] \<Rightarrow> None | m # _ \<Rightarrow> Some (snd m))"
| "rx_exec ci r (c # cs) =
     (case rxm ci r (c # cs, []) of [] \<Rightarrow> rx_exec ci r cs | m # _ \<Rightarrow> Some (snd m))"

definition rx_test :: "bool \<Rightarrow> rx \<Rightarrow> jsstring \<Rightarrow> bool" where
  "rx_test ci r s = (rx_exec ci r s \<noteq> None)"

text \<open>\<open>match[i]\<close>: \<open>None\<close> is \<open>undefined\<close>.\<close>

definition match_group :: "captures \<Rightarrow> nat \<Rightarrow> jsstring option" where
  "match_group m i = map_of m i"

text \<open>Derived forms: a literal word, \<open>r+\<close>, \<open>r{n}\<close> and \<open>r{1,3}\<close>.\<close>

definition lit :: "string \<Rightarrow> rx" where
  "lit s = foldr (\<lambda>c r. Seq (Atom (Ch (of_char c))) r) s Eps"

definition rx_plus :: "rx \<Rightarrow> rx" where
  "rx_plus r = Seq r (Star r)"

primrec rx_times :: "nat \<Rightarrow> rx \<Rightarrow> rx" where
  "rx_times 0 r = Eps"
| "rx_times (Suc n) r = Seq r (rx_times n r)"

definition one_to_three :: "rx \<Rightarrow> rx" where
  "one_to_three r = Seq r (Opt (Seq r (Opt r)))"

section \<open>Price parsers\<close>

datatype error = SyntaxError | TypeError

record price =
  amount :: rat
  currency :: jsstring

text \<open>\<open>\d+(?:\.\d{2})?\<close>, \<open>\d+(?:,\d{3})*(?:\.\d{2})?\<close> and \<open>\d{1,3}(?:,\d{3})*(?:\.\d{2})?\<close>.\<close>

definition cents :: rx where
  "cents = Opt (Seq (Atom (Ch DOT)) (rx_times 2 (Atom Digit)))"

definition thousands :: rx where
  "thousands = Star (Seq (Atom (Ch COMMA)) (rx_times 3 (Atom Digit)))"

definition amount_plain :: rx where
  "amount_plain = Seq (rx_plus (Atom Digit)) cents"

definition amount_grouped :: rx where
  "amount_grouped = Seq (rx_plus (Atom Digit)) (Seq thousands cents)"

definition amount_grouped3 :: rx where
  "amount_grouped3 = Seq (one_to_three (Atom Digit)) (Seq thousands cents)"

subsection \<open>Amazon\<close>

definition amazon_patterns :: "rx list" where
  "amazon_patterns =
    [Seq (Atom (Ch DOLLAR)) (Grp 1 amount_grouped),
     Seq (Atom (Ch POUND)) (Grp 1 amount_grouped),
     Seq (Atom (Ch EURO)) (Grp 1 amount_grouped),
     Seq (Grp 1 amount_grouped) (Seq (Star (Atom Space)) (lit ''USD'')),
     Seq (Grp 1 amount_grouped) (Seq (Star (Atom Space)) (Atom (Ch DOLLAR))),
     Seq (Atom (Ch RUPEE)) (Grp 1 amount_grouped)]"

text \<open>The currency is read off the whole cleaned text, not off the pattern that matched.\<close>

definition amazon_currency :: "jsstring \<Rightarrow> jsstring" where
  "amazon_currency cleanText =
     (if str_includes cleanText [POUND] then ustr ''GBP''
      else if str_includes cleanText [EURO] then ustr ''EUR''
      else if str_includes cleanText [RUPEE] then ustr ''INR''
      else if str_includes cleanText (ustr ''USD'') then ustr ''USD''
      else ustr ''USD'')"

text \<open>
  The loop over the patterns.  \<open>match[1].replace\<close> on an undefined group would raise a
  TypeError; \<open>continue\<close> is the recursive call on the remaining patterns.
\<close>

fun amazon_patterns_loop :: "rx list \<Rightarrow> jsstring \<Rightarrow> error + price option" where
  "amazon_patterns_loop [] cleanText = Inr None"
| "amazon_patterns_loop (pattern # rest) cleanText =
     (case rx_exec False pattern cleanText of
        None \<Rightarrow> amazon_patterns_loop rest cleanText
      | Some m \<Rightarrow>
          (case match_group m 1 of
             None \<Rightarrow> Inl TypeError
           | Some g \<Rightarrow>
               (case parseFloat (strip_commas g) of
                  None \<Rightarrow> amazon_patterns_loop rest cleanText
                | Some a \<Rightarrow> Inr (Some \<lparr>amount = a, currency = amazon_currency cleanText\<rparr>))))"

definition parseAmazonPrice :: "jsstring \<Rightarrow> error + price option" where
  "parseAmazonPrice priceText =
     (if priceText = [] then Inr None
      else amazon_patterns_loop amazon_patterns (trim (collapse_ws priceText)))"

subsection \<open>Domino's\<close>

text \<open>Each pattern with its \<open>i\<close> flag.\<close>

definition symbol3 :: rx where
  "symbol3 = Atom (OneOf [POUND, DOLLAR, EURO])"

definition dominos_patterns :: "(bool \<times> rx) list" where
  "dominos_patterns =
    [(False, Seq (Grp 1 symbol3) (Grp 2 amount_plain)),
     (False, Seq (Grp 1 amount_plain) (Seq (Star (Atom Space)) (Grp 2 (rx_times 3 (Atom Upper))))),
     (True, Seq (lit ''total'') (Seq (Opt (Atom (Ch COLON))) (Seq (Star (Atom Space))
              (Seq (Grp 1 symbol3) (Grp 2 amount_plain))))),
     (False, Seq (Grp 1 symbol3) (Grp 2 amount_grouped3))]"

text \<open>\<open>mapping[symbol] || 'USD'\<close>.\<close>

definition dominos_getCurrencyFromSymbol :: "jsstring \<Rightarrow> jsstring" where
  "dominos_getCurrencyFromSymbol symbol =
     (case map_of [([DOLLAR], ustr ''USD''), ([POUND], ustr ''GBP''), ([EURO], ustr ''EUR'')] symbol of
        Some code \<Rightarrow> code
      | None \<Rightarrow> ustr ''USD'')"

text \<open>
  The body of the loop for one match: the two shapes (symbol first, code after), then
  the NaN test.  \<open>match[1] && match[2]\<close> holds when both groups are defined and not
  empty.  \<open>None\<close> is \<open>continue\<close>.
\<close>

definition symbol_first_or_code_after ::
    "rx \<Rightarrow> rx \<Rightarrow> (jsstring \<Rightarrow> jsstring) \<Rightarrow> (jsstring \<Rightarrow> jsstring) \<Rightarrow> captures \<Rightarrow> price option" where
  "symbol_first_or_code_after symbols code clean_amount to_code m =
     (case (match_group m 1, match_group m 2) of
        (Some g1, Some g2) \<Rightarrow>
          if g1 \<noteq> [] \<and> g2 \<noteq> [] \<and> rx_test False symbols g1 then
            (case parseFloat (clean_amount g2) of
               None \<Rightarrow> None
             | Some a \<Rightarrow> Some \<lparr>amount = a, currency = to_code g1\<rparr>)
          else if g1 \<noteq> [] \<and> g2 \<noteq> [] \<and> rx_test False code g2 then
            (case parseFloat (clean_amount g1) of
               None \<Rightarrow> None
             | Some a \<Rightarrow> Some \<lparr>amount = a, currency = g2\<rparr>)
          else None
      | _ \<Rightarrow> None)"

fun dominos_patterns_loop :: "(bool \<times> rx) list \<Rightarrow> jsstring \<Rightarrow> price option" where
  "dominos_patterns_loop [] cleanText = None"
| "dominos_patterns_loop ((ci, pattern) # rest) cleanText =
     (case rx_exec ci pattern cleanText of
        None \<Rightarrow> dominos_patterns_loop rest cleanText
      | Some m \<Rightarrow>
          (case symbol_first_or_code_after symbol3 (rx_times 3 (Atom Upper))
                  strip_commas dominos_getCurrencyFromSymbol m of
             None \<Rightarrow> dominos_patterns_loop rest cleanText
           | Some p \<Rightarrow> Some p))"

definition parseDominosPrice :: "jsstring \<Rightarrow> price option" where
  "parseDominosPrice priceText =
     (if priceText = [] then None
      else dominos_patterns_loop dominos_patterns (trim (collapse_ws priceText)))"

subsection \<open>Netflix\<close>

definition symbol4 :: rx where
  "symbol4 = Atom (OneOf [POUND, DOLLAR, EURO, RUPEE])"

text \<open>\<open>\s*(?:\/|\s*per\s*|\s*)\<close>, and the optional unit with its list of words.\<close>

definition per_sep :: rx where
  "per_sep = Seq (Star (Atom Space))
     (Alt (Atom (Ch SLASH))
       (Alt (Seq (Star (Atom Space)) (Seq (lit ''per'') (Star (Atom Space))))
            (Star (Atom Space))))"

definition mesyats :: rx where
  "mesyats = Seq (Atom (Ch 0x43C)) (Seq (Atom (Ch 0x435)) (Seq (Atom (Ch 0x441))
               (Seq (Atom (Ch 0x44F)) (Atom (Ch 0x446)))))"

definition netflix_patterns :: "(bool \<times> rx) list" where
  "netflix_patterns =
    [(True, Seq (Grp 1 symbol4) (Seq (Grp 2 amount_plain)
              (Seq per_sep (Opt (Alt (lit ''month'') (Alt (lit ''mo'') mesyats)))))),
     (True, Seq (Grp 1 amount_plain) (Seq (Star (Atom Space)) (Seq (Grp 2 (rx_times 3 (Atom Upper)))
              (Seq per_sep (Opt (Alt (lit ''month'') (lit ''mo''))))))),
     (False, Seq (Grp 1 symbol4) (Grp 2 amount_plain)),
     (False, Seq (Grp 1 amount_plain) (Seq (Star (Atom Space)) (Grp 2 (rx_times 3 (Atom Upper)))))]"

definition netflix_getCurrencyFromSymbol :: "jsstring \<Rightarrow> jsstring" where
  "netflix_getCurrencyFromSymbol symbol =
     (case map_of [([DOLLAR], ustr ''USD''), ([POUND], ustr ''GBP''), ([EURO], ustr ''EUR''),
                   ([RUPEE], ustr ''INR'')] symbol of
        Some code \<Rightarrow> code
      | None \<Rightarrow> ustr ''USD'')"

fun netflix_patterns_loop :: "(bool \<times> rx) list \<Rightarrow> jsstring \<Rightarrow> price option" where
  "netflix_patterns_loop [] cleanText = None"
| "netflix_patterns_loop ((ci, pattern) # rest) cleanText =
     (case rx_exec ci pattern cleanText of
        None \<Rightarrow> netflix_patterns_loop rest cleanText
      | Some m \<Rightarrow>
          (case symbol_first_or_code_after symbol4 (rx_times 3 (Atom Upper))
                  (\<lambda>s. s) netflix_getCurrencyFromSymbol m of
             None \<Rightarrow> netflix_patterns_loop rest cleanText
           | Some p \<Rightarrow> Some p))"

definition parseNetflixPrice :: "jsstring \<Rightarrow> price option" where
  "parseNetflixPrice priceText =
     (if priceText = [] then None
      else netflix_patterns_loop netflix_patterns (trim (collapse_ws priceText)))"

section \<open>The page\<close>

text \<open>
  The scripts read the document through CSS selectors only.  A page is therefore its
  location, the clock, and for every selector the elements it selects, in document
  order.  An element carries its text, its attribute names and, for the selectors
  that the scripts apply to it, the descendants they select.
\<close>

datatype element =
  Element (textContent: jsstring) (attributeNames: "string list")
          (descendants: "(string \<times> element list) list")

record page =
  hostname :: jsstring
  pathname :: jsstring
  href :: jsstring
  nodes :: "string \<Rightarrow> element list"
  clock :: nat

text \<open>
  \<open>:contains(...)\<close> is a jQuery extension and not a CSS pseudo-class:
  \<open>querySelector\<close> raises a SyntaxError for a selector that uses it.
\<close>

definition selector_ok :: "string \<Rightarrow> bool" where
  "selector_ok selector = (\<not> str_includes selector '':contains('')"

definition querySelectorAll :: "page \<Rightarrow> string \<Rightarrow> error + element list" where
  "querySelectorAll p selector =
     (if selector_ok selector then Inr (nodes p selector) else Inl SyntaxError)"

definition first_of :: "'a list \<Rightarrow> 'a option" where
  "first_of xs = (case xs of [] \<Rightarrow> None | x # _ \<Rightarrow> Some x)"

definition querySelector :: "page \<Rightarrow> string \<Rightarrow> error + element option" where
  "querySelector p selector =
     (case querySelectorAll p selector of Inl e \<Rightarrow> Inl e | Inr els \<Rightarrow> Inr (first_of els))"

text \<open>\<open>element.querySelector\<close> and \<open>element.querySelectorAll\<close>.\<close>

definition el_querySelectorAll :: "element \<Rightarrow> string \<Rightarrow> error + element list" where
  "el_querySelectorAll el selector =
     (if selector_ok selector
      then Inr (case map_of (descendants el) selector of None \<Rightarrow> [] | Some els \<Rightarrow> els)
      else Inl SyntaxError)"

definition el_querySelector :: "element \<Rightarrow> string \<Rightarrow> error + element option" where
  "el_querySelector el selector =
     (case el_querySelectorAll el selector of Inl e \<Rightarrow> Inl e | Inr els \<Rightarrow> Inr (first_of els))"

text \<open>The utility \<open>findElement\<close>, which every platform class repeats.\<close>

fun findElement :: "page \<Rightarrow> string list \<Rightarrow> error + element option" where
  "findElement p [] = Inr None"
| "findElement p (selector # rest) =
     (case querySelector p selector of
        Inl e \<Rightarrow> Inl e
      | Inr (Some el) \<Rightarrow> Inr (Some el)
      | Inr None \<Rightarrow> findElement p rest)"

text \<open>\<open>selectors.join(', ')\<close>.\<close>

fun join_selectors :: "string list \<Rightarrow> string" where
  "join_selectors [] = []"
| "join_selectors [s] = s"
| "join_selectors (s # t # rest) = s @ '', '' @ join_selectors (t # rest)"

text \<open>The decimal numeral of a number, for the template strings.\<close>

function decimal :: "nat \<Rightarrow> jsstring" where
  "decimal n = (if n < 10 then [0x30 + n] else decimal (n div 10) @ [0x30 + n mod 10])"
  by pat_completeness auto
termination
  by (relation "measure id") auto

declare decimal.simps [simp del]

section \<open>Checkout snapshots\<close>

record checkoutItem =
  item_name :: jsstring
  item_platform :: jsstring
  item_price :: "rat option"
  item_type :: "jsstring option"

record checkoutInfo =
  platform_name :: jsstring
  totalAmount :: rat
  currency_code :: jsstring
  items :: "checkoutItem list"
  checkoutUrl :: jsstring
  timestamp :: nat

text \<open>\<open>items.slice(0, n)\<close> is \<open>take n items\<close>.\<close>

subsection \<open>Amazon\<close>

definition amazon_supportedDomains :: "string list" where
  "amazon_supportedDomains =
    [''amazon.com'', ''amazon.co.uk'', ''amazon.de'', ''amazon.fr'',
     ''amazon.it'', ''amazon.es'', ''amazon.ca'', ''amazon.com.au'']"

definition amazon_totalPrice :: "string list" where
  \<open>amazon_totalPrice =
    [''#subtotals-marketplace-table .grand-total-price'',
     ''.grand-total-price-value'',
     ''#subtotals-marketplace-spc .a-offscreen'',
     ''span[data-feature-name="subtotals"] .currencyINR'']\<close>

definition amazon_giftCardSection :: "string list" where
  \<open>amazon_giftCardSection =
    [''#gc-redemption-section'',
     ''.a-box[data-testid="gift-cards-and-promotional-codes"]'',
     ''#gift-cards-and-promotional-codes'']\<close>

definition amazon_giftCardInput :: "string list" where
  \<open>amazon_giftCardInput =
    [''#gc-redemption-input'', ''input[name="giftCardCode"]'', ''input[aria-label*="gift card"]'']\<close>

definition amazon_applyButton :: "string list" where
  \<open>amazon_applyButton =
    [''#gc-redemption-apply-button'',
     ''button[aria-label*="Apply gift card"]'',
     ''.a-button[data-testid="apply-gift-card-button"]'']\<close>

definition amazon_product_price :: "string list" where
  "amazon_product_price =
    [''.a-price-whole'', ''#priceblock_dealprice'', ''#priceblock_ourprice'', ''.a-offscreen'']"

definition amazon_buyNowButton :: "string list" where
  \<open>amazon_buyNowButton = [''#buy-now-button'', ''input[name="submit.buy-now"]'']\<close>

text \<open>One loop of \<open>extractTotalPrice\<close>; \<open>Inr None\<close> is falling out of the loop.\<close>

fun amazon_price_loop :: "page \<Rightarrow> string list \<Rightarrow> error + price option" where
  "amazon_price_loop p [] = Inr None"
| "amazon_price_loop p (selector # rest) =
     (case querySelector p selector of
        Inl e \<Rightarrow> Inl e
      | Inr None \<Rightarrow> amazon_price_loop p rest
      | Inr (Some el) \<Rightarrow>
          (case parseAmazonPrice (textContent el) of
             Inl e \<Rightarrow> Inl e
           | Inr (Some parsed) \<Rightarrow> Inr (Some parsed)
           | Inr None \<Rightarrow> amazon_price_loop p rest))"

definition amazon_extractTotalPrice :: "page \<Rightarrow> error + price option" where
  "amazon_extractTotalPrice p =
     (case amazon_price_loop p amazon_totalPrice of
        Inl e \<Rightarrow> Inl e
      | Inr (Some parsed) \<Rightarrow> Inr (Some parsed)
      | Inr None \<Rightarrow> amazon_price_loop p amazon_product_price)"

definition amazon_itemSelectors :: "string list" where
  \<open>amazon_itemSelectors =
    [''.sc-item-content-group'', ''.a-row.sc-item-row'', ''[data-name="Active Items"] .sc-list-item'']\<close>

text \<open>
  The \<open>forEach\<close> over the item elements of one selector, from index \<open>index\<close> on:
  \<open>titleElement?.textContent?.trim() || `Item ${index + 1}`\<close>.
\<close>

fun amazon_items_of :: "element list \<Rightarrow> nat \<Rightarrow> error + checkoutItem list" where
  "amazon_items_of [] index = Inr []"
| "amazon_items_of (el # els) index =
     (case el_querySelector el ''.sc-product-title, .a-truncate-full'' of
        Inl e \<Rightarrow> Inl e
      | Inr titleElement \<Rightarrow>
          (let t = (case titleElement of None \<Rightarrow> [] | Some te \<Rightarrow> trim (textContent te));
               title = (if t = [] then ustr ''Item '' @ decimal (index + 1) else t)
           in case amazon_items_of els (index + 1) of
                Inl e \<Rightarrow> Inl e
              | Inr others \<Rightarrow>
                  Inr (\<lparr>item_name = title, item_platform = ustr ''amazon'',
                        item_price = None, item_type = None\<rparr> # others)))"

fun amazon_items_loop :: "page \<Rightarrow> string list \<Rightarrow> checkoutItem list \<Rightarrow> error + checkoutItem list" where
  "amazon_items_loop p [] acc = Inr acc"
| "amazon_items_loop p (selector # rest) acc =
     (case querySelectorAll p selector of
        Inl e \<Rightarrow> Inl e
      | Inr itemElements \<Rightarrow>
          (case amazon_items_of itemElements 0 of
             Inl e \<Rightarrow> Inl e
           | Inr found \<Rightarrow>
               if length (acc @ found) > 0 then Inr (acc @ found)
               else amazon_items_loop p rest (acc @ found)))"

definition amazon_extractItems :: "page \<Rightarrow> error + checkoutItem list" where
  "amazon_extractItems p =
     (case amazon_items_loop p amazon_itemSelectors [] of
        Inl e \<Rightarrow> Inl e
      | Inr its \<Rightarrow> Inr (take 5 its))"

text \<open>The \<open>try\<close> block returns the snapshot; the \<open>catch\<close> turns every exception into \<open>null\<close>.\<close>

definition amazon_getCheckoutInfo :: "page \<Rightarrow> checkoutInfo option" where
  "amazon_getCheckoutInfo p =
     (case amazon_extractTotalPrice p of
        Inl e \<Rightarrow> None
      | Inr None \<Rightarrow> None
      | Inr (Some totalPrice) \<Rightarrow>
          (case amazon_extractItems p of
             Inl e \<Rightarrow> None
           | Inr its \<Rightarrow>
               Some \<lparr>platform_name = ustr ''amazon'', totalAmount = amount totalPrice,
                     currency_code = currency totalPrice, items = its,
                     checkoutUrl = href p, timestamp = clock p\<rparr>))"

subsection \<open>Domino's\<close>

definition dominos_supportedDomains :: "string list" where
  "dominos_supportedDomains =
    [''dominos.com'', ''dominos.co.uk'', ''dominos.de'', ''dominos.com.au'',
     ''dominos.ca'', ''dominos.co.nz'', ''dominos.ie'', ''dominos.fr'']"

definition dominos_totalPrice :: "string list" where
  \<open>dominos_totalPrice =
    [''[data-quid="order-summary-total"]'',
     ''.order-total .price'',
     ''#total-price'',
     ''.checkout-total .amount'',
     ''.order-summary-total-row .total-amount'']\<close>

definition dominos_giftCardSection :: "string list" where
  \<open>dominos_giftCardSection =
    [''[data-quid="gift-card-section"]'',
     ''.gift-card-container'',
     ''#gift-card-form'',
     ''.payment-gift-card'',
     ''.promo-gift-card-section'']\<close>

definition dominos_giftCardInput :: "string list" where
  \<open>dominos_giftCardInput =
    [''[data-quid="gift-card-input"]'',
     ''input[name="giftCardNumber"]'',
     ''#gift-card-number'',
     ''input[placeholder*="gift card"]'',
     ''input[aria-label*="gift card"]'']\<close>

definition dominos_applyButton :: "string list" where
  \<open>dominos_applyButton =
    [''[data-quid="apply-gift-card"]'',
     ''button[data-quid="gift-card-apply"]'',
     ''.apply-gift-card-btn'',
     ''button:contains("Apply Gift Card")'',
     ''.btn-apply-gift-card'']\<close>

definition dominos_cartItems :: "string list" where
  \<open>dominos_cartItems = [''.cart-item'', ''[data-quid="cart-item"]'', ''.order-item'', ''.pizza-item'']\<close>

definition dominos_itemName :: "string list" where
  \<open>dominos_itemName = [''.item-name'', ''[data-quid="item-name"]'', ''.product-name'']\<close>

definition dominos_itemPrice :: "string list" where
  \<open>dominos_itemPrice = [''.item-price'', ''[data-quid="item-price"]'', ''.product-price'']\<close>

definition dominos_paymentSection :: "string list" where
  \<open>dominos_paymentSection =
    [''[data-quid="payment-section"]'', ''.payment-methods'', ''#payment-container'',
     ''.checkout-payment'']\<close>

fun dominos_price_loop :: "page \<Rightarrow> string list \<Rightarrow> error + price option" where
  "dominos_price_loop p [] = Inr None"
| "dominos_price_loop p (selector # rest) =
     (case querySelector p selector of
        Inl e \<Rightarrow> Inl e
      | Inr None \<Rightarrow> dominos_price_loop p rest
      | Inr (Some el) \<Rightarrow>
          (case parseDominosPrice (textContent el) of
             Some parsed \<Rightarrow> Inr (Some parsed)
           | None \<Rightarrow> dominos_price_loop p rest))"

text \<open>
  The fallback over every element with "total" in its class; the text is parsed if
  it contains a dollar, pound or euro sign followed by \<open>\d+\.\d{2}\<close>.
\<close>

definition price_shape :: rx where
  "price_shape = Seq symbol3 (Seq (rx_plus (Atom Digit)) (Seq (Atom (Ch DOT)) (rx_times 2 (Atom Digit))))"

fun dominos_total_fallback :: "element list \<Rightarrow> price option" where
  "dominos_total_fallback [] = None"
| "dominos_total_fallback (el # els) =
     (if rx_test False price_shape (textContent el) then
        (case parseDominosPrice (textContent el) of
           Some parsed \<Rightarrow> Some parsed
         | None \<Rightarrow> dominos_total_fallback els)
      else dominos_total_fallback els)"

definition dominos_extractTotalPrice :: "page \<Rightarrow> error + price option" where
  \<open>dominos_extractTotalPrice p =
     (case dominos_price_loop p dominos_totalPrice of
        Inl e \<Rightarrow> Inl e
      | Inr (Some parsed) \<Rightarrow> Inr (Some parsed)
      | Inr None \<Rightarrow>
          (case querySelectorAll p ''*[class*="total"], *[data-quid*="total"]'' of
             Inl e \<Rightarrow> Inl e
           | Inr totalElements \<Rightarrow> Inr (dominos_total_fallback totalElements)))\<close>

text \<open>
  The \<open>forEach\<close> of \<open>extractOrderItems\<close>, from index \<open>index\<close> on.  The price of an item
  is \<open>parsed?.amount || 0\<close>.
\<close>

fun dominos_items_of :: "element list \<Rightarrow> nat \<Rightarrow> error + checkoutItem list" where
  "dominos_items_of [] index = Inr []"
| "dominos_items_of (el # els) index =
     (case el_querySelector el (join_selectors dominos_itemName) of
        Inl e \<Rightarrow> Inl e
      | Inr nameElement \<Rightarrow>
          (case el_querySelector el (join_selectors dominos_itemPrice) of
             Inl e \<Rightarrow> Inl e
           | Inr priceElement \<Rightarrow>
               (let t = (case nameElement of None \<Rightarrow> [] | Some ne \<Rightarrow> trim (textContent ne));
                    nm = (if t = [] then ustr ''Pizza Item '' @ decimal (index + 1) else t);
                    pr = (case priceElement of
                            None \<Rightarrow> 0
                          | Some pe \<Rightarrow>
                              (case parseDominosPrice (textContent pe) of
                                 None \<Rightarrow> 0
                               | Some parsed \<Rightarrow> amount parsed))
                in case dominos_items_of els (index + 1) of
                     Inl e \<Rightarrow> Inl e
                   | Inr others \<Rightarrow>
                       Inr (\<lparr>item_name = nm, item_platform = ustr ''dominos'',
                             item_price = Some pr, item_type = Some (ustr ''food'')\<rparr> # others))))"

definition dominos_placeholder :: checkoutItem where
  "dominos_placeholder =
     \<lparr>item_name = ustr ''Domino'' @ [0x27] @ ustr ''s Order'', item_platform = ustr ''dominos'',
      item_price = None, item_type = Some (ustr ''food'')\<rparr>"

definition dominos_extractOrderItems :: "page \<Rightarrow> error + checkoutItem list" where
  "dominos_extractOrderItems p =
     (case querySelectorAll p (join_selectors dominos_cartItems) of
        Inl e \<Rightarrow> Inl e
      | Inr itemElements \<Rightarrow>
          (case dominos_items_of itemElements 0 of
             Inl e \<Rightarrow> Inl e
           | Inr found \<Rightarrow>
               Inr (take 10 (if length found = 0 then found @ [dominos_placeholder] else found))))"

definition dominos_getCheckoutInfo :: "page \<Rightarrow> checkoutInfo option" where
  "dominos_getCheckoutInfo p =
     (case dominos_extractTotalPrice p of
        Inl e \<Rightarrow> None
      | Inr None \<Rightarrow> None
      | Inr (Some totalPrice) \<Rightarrow>
          (case dominos_extractOrderItems p of
             Inl e \<Rightarrow> None
           | Inr its \<Rightarrow>
               Some \<lparr>platform_name = ustr ''dominos'', totalAmount = amount totalPrice,
                     currency_code = currency totalPrice, items = its,
                     checkoutUrl = href p, timestamp = clock p\<rparr>))"

subsection \<open>Netflix\<close>

definition netflix_supportedDomains :: "string list" where
  "netflix_supportedDomains =
    [''netflix.com'', ''netflix.co.uk'', ''netflix.de'', ''netflix.fr'',
     ''netflix.it'', ''netflix.es'', ''netflix.ca'', ''netflix.com.au'',
     ''netflix.co.jp'', ''netflix.in'']"

definition netflix_totalPrice :: "string list" where
  \<open>netflix_totalPrice =
    [''[data-uia="plan-price"]'',
     ''.price-display .currency-price'',
     ''.plan-price .amount'',
     ''.plan-selection-price'']\<close>

definition netflix_giftCardSection :: "string list" where
  \<open>netflix_giftCardSection =
    [''[data-uia="gift-card-section"]'',
     ''.gift-card-redemption'',
     ''#gift-code-section'',
     ''.redeem-gift-container'']\<close>

definition netflix_giftCardInput :: "string list" where
  \<open>netflix_giftCardInput =
    [''[data-uia="gift-code-input"]'',
     ''input[name="giftCode"]'',
     ''#gift-code-input'',
     ''input[placeholder*="gift"]'']\<close>

definition netflix_applyButton :: "string list" where
  \<open>netflix_applyButton =
    [''[data-uia="redeem-gift-button"]'',
     ''button[data-uia="redeem-button"]'',
     ''.redeem-button'',
     ''button:contains("Redeem")'']\<close>

definition netflix_planSelection :: "string list" where
  \<open>netflix_planSelection =
    [''[data-uia="plan-selection-container"]'', ''.plan-selection-wrapper'', ''.planGrid'']\<close>

definition netflix_selectedPlan :: "string list" where
  \<open>netflix_selectedPlan =
    [''[data-uia="plan-selection-option"][aria-checked="true"]'',
     ''.plan-option.selected'',
     ''.plan-selected'']\<close>

definition netflix_paymentStep :: "string list" where
  \<open>netflix_paymentStep =
    [''[data-uia="payment-picker-container"]'', ''.payment-method-container'', ''.payment-picker'']\<close>

definition netflix_continueButton :: "string list" where
  \<open>netflix_continueButton =
    [''[data-uia="payment-picker-continue"]'', ''button[data-uia="continue-button"]'',
     ''.btn-continue'']\<close>

fun netflix_price_loop :: "page \<Rightarrow> string list \<Rightarrow> error + price option" where
  "netflix_price_loop p [] = Inr None"
| "netflix_price_loop p (selector # rest) =
     (case querySelector p selector of
        Inl e \<Rightarrow> Inl e
      | Inr None \<Rightarrow> netflix_price_loop p rest
      | Inr (Some el) \<Rightarrow>
          (case parseNetflixPrice (textContent el) of
             Some parsed \<Rightarrow> Inr (Some parsed)
           | None \<Rightarrow> netflix_price_loop p rest))"

fun netflix_plan_prices :: "element list \<Rightarrow> price option" where
  "netflix_plan_prices [] = None"
| "netflix_plan_prices (el # els) =
     (case parseNetflixPrice (textContent el) of
        Some parsed \<Rightarrow> Some parsed
      | None \<Rightarrow> netflix_plan_prices els)"

definition netflix_extractPlanPrice :: "page \<Rightarrow> error + price option" where
  \<open>netflix_extractPlanPrice p =
     (case netflix_price_loop p netflix_totalPrice of
        Inl e \<Rightarrow> Inl e
      | Inr (Some parsed) \<Rightarrow> Inr (Some parsed)
      | Inr None \<Rightarrow>
          (case findElement p netflix_selectedPlan of
             Inl e \<Rightarrow> Inl e
           | Inr None \<Rightarrow> Inr None
           | Inr (Some selectedPlan) \<Rightarrow>
               (case el_querySelectorAll selectedPlan ''.price, .amount, [data-uia*="price"]'' of
                  Inl e \<Rightarrow> Inl e
                | Inr priceElements \<Rightarrow> Inr (netflix_plan_prices priceElements))))\<close>

definition netflix_subscription :: "jsstring \<Rightarrow> checkoutItem" where
  "netflix_subscription title =
     \<lparr>item_name = title, item_platform = ustr ''netflix'',
      item_price = None, item_type = Some (ustr ''subscription'')\<rparr>"

definition netflix_extractSelectedPlan :: "page \<Rightarrow> error + checkoutItem list" where
  \<open>netflix_extractSelectedPlan p =
     (case findElement p netflix_selectedPlan of
        Inl e \<Rightarrow> Inl e
      | Inr (Some selectedPlan) \<Rightarrow>
          (case el_querySelector selectedPlan ''[data-uia*="plan"], .plan-title, .plan-name'' of
             Inl e \<Rightarrow> Inl e
           | Inr titleElement \<Rightarrow>
               (let t = (case titleElement of None \<Rightarrow> [] | Some te \<Rightarrow> trim (textContent te));
                    title = (if t = [] then ustr ''Netflix Subscription'' else t)
                in Inr [netflix_subscription title]))
      | Inr None \<Rightarrow> Inr [netflix_subscription (ustr ''Netflix Subscription'')])\<close>

definition netflix_getCheckoutInfo :: "page \<Rightarrow> checkoutInfo option" where
  "netflix_getCheckoutInfo p =
     (case netflix_extractPlanPrice p of
        Inl e \<Rightarrow> None
      | Inr None \<Rightarrow> None
      | Inr (Some totalPrice) \<Rightarrow>
          (case netflix_extractSelectedPlan p of
             Inl e \<Rightarrow> None
           | Inr its \<Rightarrow>
               Some \<lparr>platform_name = ustr ''netflix'', totalAmount = amount totalPrice,
                     currency_code = currency totalPrice, items = its,
                     checkoutUrl = href p, timestamp = clock p\<rparr>))"

section \<open>Platform detection\<close>

text \<open>\<open>list.some(x => text.includes(x))\<close>.\<close>

definition some_included :: "jsstring \<Rightarrow> string list \<Rightarrow> bool" where
  "some_included text xs = list_ex (\<lambda>x. str_includes text (ustr x)) xs"

definition amazon_checkoutPaths :: "string list" where
  "amazon_checkoutPaths =
    [''/gp/buy/'', ''/checkout/'', ''/gp/cart/view.html'', ''/gp/cart/'', ''/ap/signin'']"

definition amazon_isDetected :: "page \<Rightarrow> error + bool" where
  "amazon_isDetected p =
     (if \<not> some_included (hostname p) amazon_supportedDomains then Inr False
      else
        let isCheckoutPage = some_included (pathname p) amazon_checkoutPaths
        in case findElement p amazon_buyNowButton of
             Inl e \<Rightarrow> Inl e
           | Inr buyNow \<Rightarrow> Inr (isCheckoutPage \<or> buyNow \<noteq> None))"

definition netflix_relevantPaths :: "string list" where
  "netflix_relevantPaths = [''/signup'', ''/redeem'', ''/gift-redemption'', ''/payment'', ''/planform'']"

definition netflix_isDetected :: "page \<Rightarrow> error + bool" where
  "netflix_isDetected p =
     (if \<not> some_included (hostname p) netflix_supportedDomains then Inr False
      else
        let isRelevantPage = some_included (pathname p) netflix_relevantPaths
        in case findElement p netflix_planSelection of
             Inl e \<Rightarrow> Inl e
           | Inr planSelection \<Rightarrow>
               (case findElement p netflix_paymentStep of
                  Inl e \<Rightarrow> Inl e
                | Inr paymentStep \<Rightarrow>
                    (case findElement p netflix_giftCardSection of
                       Inl e \<Rightarrow> Inl e
                     | Inr giftCardSection \<Rightarrow>
                         Inr (isRelevantPage \<or> planSelection \<noteq> None \<or> paymentStep \<noteq> None
                              \<or> giftCardSection \<noteq> None))))"

definition dominos_relevantPaths :: "string list" where
  "dominos_relevantPaths = [''/checkout'', ''/cart'', ''/order-summary'', ''/payment'', ''/review-order'']"

definition dominos_isDetected :: "page \<Rightarrow> error + bool" where
  "dominos_isDetected p =
     (if \<not> some_included (hostname p) dominos_supportedDomains then Inr False
      else
        let isRelevantPage = some_included (pathname p) dominos_relevantPaths
        in case findElement p dominos_totalPrice of
             Inl e \<Rightarrow> Inl e
           | Inr orderTotal \<Rightarrow>
               (case findElement p dominos_cartItems of
                  Inl e \<Rightarrow> Inl e
                | Inr cartItems \<Rightarrow>
                    (case findElement p dominos_paymentSection of
                       Inl e \<Rightarrow> Inl e
                     | Inr paymentSection \<Rightarrow>
                         Inr (isRelevantPage \<or> orderTotal \<noteq> None \<or> cartItems \<noteq> None
                              \<or> paymentSection \<noteq> None))))"

text \<open>The registry: the platform objects and the list that detection iterates over.\<close>

datatype platform = Amazon | Netflix | Dominos

definition PLATFORM_LIST :: "platform list" where
  "PLATFORM_LIST = [Amazon, Netflix, Dominos]"

fun isDetected :: "platform \<Rightarrow> page \<Rightarrow> error + bool" where
  "isDetected Amazon p = amazon_isDetected p"
| "isDetected Netflix p = netflix_isDetected p"
| "isDetected Dominos p = dominos_isDetected p"

fun supportedDomains :: "platform \<Rightarrow> string list" where
  "supportedDomains Amazon = amazon_supportedDomains"
| "supportedDomains Netflix = netflix_supportedDomains"
| "supportedDomains Dominos = dominos_supportedDomains"

fun getCheckoutInfo :: "platform \<Rightarrow> page \<Rightarrow> checkoutInfo option" where
  "getCheckoutInfo Amazon p = amazon_getCheckoutInfo p"
| "getCheckoutInfo Netflix p = netflix_getCheckoutInfo p"
| "getCheckoutInfo Dominos p = dominos_getCheckoutInfo p"

text \<open>The loop of \<open>detectCurrentPlatform\<close> over the remaining platforms.\<close>

fun detect_loop :: "platform list \<Rightarrow> page \<Rightarrow> error + platform option" where
  "detect_loop [] p = Inr None"
| "detect_loop (pl # rest) p =
     (case isDetected pl p of
        Inl e \<Rightarrow> Inl e
      | Inr True \<Rightarrow> Inr (Some pl)
      | Inr False \<Rightarrow> detect_loop rest p)"

definition detectCurrentPlatform :: "page \<Rightarrow> error + platform option" where
  "detectCurrentPlatform p = detect_loop PLATFORM_LIST p"

definition isSupportedDomain :: "jsstring \<Rightarrow> bool" where
  "isSupportedDomain host = list_ex (\<lambda>pl. some_included host (supportedDomains pl)) PLATFORM_LIST"

section \<open>Verification of a redemption\<close>

text \<open>
  \<open>text.toLowerCase()\<close>, as far as it matters for finding an ASCII word in the
  result: the ASCII letters, and the two other code units whose lower case contains
  an ASCII letter, U+0130 (an \<open>i\<close> followed by a combining dot) and the Kelvin sign
  (\<open>k\<close>).  Every other code unit maps to code units outside ASCII and is left alone.
\<close>

definition lower_units :: "nat \<Rightarrow> jsstring" where
  "lower_units c = (if c = 0x130 then [0x69, 0x307] else if c = 0x212A then [0x6B] else [lower_unit c])"

definition text_lower :: "jsstring \<Rightarrow> jsstring" where
  "text_lower s = concat (map lower_units s)"

text \<open>
  The first loop of each verification: some selector's first element has a text
  that, in lower case, includes the word.
\<close>

fun success_loop :: "page \<Rightarrow> string \<Rightarrow> string list \<Rightarrow> error + bool" where
  "success_loop p word [] = Inr False"
| "success_loop p word (selector # rest) =
     (case querySelector p selector of
        Inl e \<Rightarrow> Inl e
      | Inr None \<Rightarrow> success_loop p word rest
      | Inr (Some el) \<Rightarrow>
          if str_includes (text_lower (textContent el)) (ustr word) then Inr True
          else success_loop p word rest)"

text \<open>The loops that only ask whether some selector selects anything.\<close>

fun exists_loop :: "page \<Rightarrow> string list \<Rightarrow> error + bool" where
  "exists_loop p [] = Inr False"
| "exists_loop p (selector # rest) =
     (case querySelector p selector of
        Inl e \<Rightarrow> Inl e
      | Inr (Some el) \<Rightarrow> Inr True
      | Inr None \<Rightarrow> exists_loop p rest)"

definition amazon_successSelectors :: "string list" where
  \<open>amazon_successSelectors =
    [''.a-alert-success'',
     ''.gc-redemption-success'',
     ''[data-testid="gc-redemption-success"]'',
     ''.a-alert-content:contains("applied")'']\<close>

definition amazon_balanceSelectors :: "string list" where
  \<open>amazon_balanceSelectors = [''.gc-redemption-balance'', ''[data-testid="gift-card-balance"]'']\<close>

text \<open>\<open>newTotal && newTotal.amount > 0\<close>: the new total is not compared with anything.\<close>

definition positive_total :: "price option \<Rightarrow> bool" where
  "positive_total newTotal = (case newTotal of None \<Rightarrow> False | Some t \<Rightarrow> amount t > 0)"

definition amazon_verifyGiftCardApplication :: "page \<Rightarrow> error + bool" where
  "amazon_verifyGiftCardApplication p =
     (case success_loop p ''applied'' amazon_successSelectors of
        Inl e \<Rightarrow> Inl e
      | Inr True \<Rightarrow> Inr True
      | Inr False \<Rightarrow>
          (case exists_loop p amazon_balanceSelectors of
             Inl e \<Rightarrow> Inl e
           | Inr True \<Rightarrow> Inr True
           | Inr False \<Rightarrow>
               (case amazon_extractTotalPrice p of
                  Inl e \<Rightarrow> Inl e
                | Inr newTotal \<Rightarrow> Inr (positive_total newTotal))))"

definition dominos_successSelectors :: "string list" where
  \<open>dominos_successSelectors =
    [''.gift-card-success'', ''.promo-success'', ''[data-quid*="success"]'', ''.alert-success'']\<close>

definition dominos_balanceSelectors :: "string list" where
  \<open>dominos_balanceSelectors =
    [''.gift-card-balance'', ''[data-quid*="gift-card-applied"]'', ''.applied-gift-card'']\<close>

definition dominos_discountSelectors :: "string list" where
  \<open>dominos_discountSelectors = [''.discount-line'', ''.gift-card-discount'', ''[data-quid*="discount"]'']\<close>

definition dominos_verifyGiftCardApplication :: "page \<Rightarrow> error + bool" where
  "dominos_verifyGiftCardApplication p =
     (case success_loop p ''applied'' dominos_successSelectors of
        Inl e \<Rightarrow> Inl e
      | Inr True \<Rightarrow> Inr True
      | Inr False \<Rightarrow>
          (case exists_loop p dominos_balanceSelectors of
             Inl e \<Rightarrow> Inl e
           | Inr True \<Rightarrow> Inr True
           | Inr False \<Rightarrow>
               (case dominos_extractTotalPrice p of
                  Inl e \<Rightarrow> Inl e
                | Inr newTotal \<Rightarrow>
                    if positive_total newTotal then Inr True
                    else exists_loop p dominos_discountSelectors)))"

definition netflix_successSelectors :: "string list" where
  \<open>netflix_successSelectors =
    [''[data-uia="redeem-success"]'', ''.redeem-success-message'', ''.gift-success'',
     ''.success-message'']\<close>

definition netflix_balanceSelectors :: "string list" where
  \<open>netflix_balanceSelectors = [''[data-uia="account-balance"]'', ''.account-balance'', ''.gift-balance'']\<close>

definition netflix_verifyGiftCardRedemption :: "page \<Rightarrow> error + bool" where
  "netflix_verifyGiftCardRedemption p =
     (case success_loop p ''success'' netflix_successSelectors of
        Inl e \<Rightarrow> Inl e
      | Inr True \<Rightarrow> Inr True
      | Inr False \<Rightarrow>
          (case exists_loop p netflix_balanceSelectors of
             Inl e \<Rightarrow> Inl e
           | Inr True \<Rightarrow> Inr True
           | Inr False \<Rightarrow>
               (case findElement p netflix_continueButton of
                  Inl e \<Rightarrow> Inl e
                | Inr None \<Rightarrow> Inr False
                | Inr (Some continueButton) \<Rightarrow>
                    Inr (''disabled'' \<notin> set (attributeNames continueButton)))))"

section \<open>The content script\<close>

subsection \<open>Injection points and buttons\<close>

definition amazon_injectionSelectors :: "string list" where
  "amazon_injectionSelectors =
    [''#checkout-button-group'', ''#placeYourOrder'', ''.a-button-group-vertical'', ''.pmts-button-group'']"

definition amazon_fallbackSelectors :: "string list" where
  "amazon_fallbackSelectors = [''#subtotals-marketplace-table'', ''.a-box-group'']"

definition netflix_injectionSelectors :: "string list" where
  \<open>netflix_injectionSelectors =
    [''[data-uia="payment-picker-container"]'', ''.payment-method-container'',
     ''.plan-selection-wrapper'', ''.redeem-gift-container'']\<close>

definition netflix_fallbackSelectors :: "string list" where
  "netflix_fallbackSelectors = [''.signup-body'', ''.main-content'', ''.center-content'']"

definition dominos_injectionSelectors :: "string list" where
  \<open>dominos_injectionSelectors =
    [''[data-quid="payment-section"]'', ''.payment-methods'', ''.checkout-payment'',
     ''.payment-options'']\<close>

definition dominos_fallbackSelectors :: "string list" where
  "dominos_fallbackSelectors =
    [''.checkout-container'', ''.order-summary'', ''.cart-summary'', ''#checkout-content'']"

fun injectionSelectors :: "platform \<Rightarrow> string list" where
  "injectionSelectors Amazon = amazon_injectionSelectors"
| "injectionSelectors Netflix = netflix_injectionSelectors"
| "injectionSelectors Dominos = dominos_injectionSelectors"

fun fallbackSelectors :: "platform \<Rightarrow> string list" where
  "fallbackSelectors Amazon = amazon_fallbackSelectors"
| "fallbackSelectors Netflix = netflix_fallbackSelectors"
| "fallbackSelectors Dominos = dominos_fallbackSelectors"

text \<open>The two loops of \<open>getButtonInjectionPoint\<close>, the same in every platform class.\<close>

definition getButtonInjectionPoint :: "platform \<Rightarrow> page \<Rightarrow> error + element option" where
  "getButtonInjectionPoint pl p =
     (case findElement p (injectionSelectors pl) of
        Inl e \<Rightarrow> Inl e
      | Inr (Some el) \<Rightarrow> Inr (Some el)
      | Inr None \<Rightarrow> findElement p (fallbackSelectors pl))"

text \<open>\<open>createPayButton\<close> builds a fresh button; it is identified by its id.\<close>

fun createPayButton :: "platform \<Rightarrow> string" where
  "createPayButton Amazon = ''paymint-amazon-button''"
| "createPayButton Netflix = ''paymint-netflix-button''"
| "createPayButton Dominos = ''paymint-dominos-button''"

subsection \<open>State\<close>

record giftCardData =
  code :: jsstring
  gc_amount :: rat
  gc_currency :: jsstring
  gc_platform :: jsstring

datatype outbound =
    CHECKOUT_INFO_DETECTED platform checkoutInfo
  | PAY_BUTTON_INJECTED platform jsstring
  | INITIATE_CRYPTO_PAYMENT platform checkoutInfo nat
  | GIFT_CARD_APPLIED_SUCCESS platform giftCardData
  | GIFT_CARD_APPLIED_FAILED platform giftCardData

datatype action =
    ScrollTo element
  | Focus element
  | Click element
  | EnterKey
  | SetLocation jsstring

text \<open>
  Where a pending redemption is waiting: each constructor is one \<open>await this.wait(...)\<close>
  of \<open>applyGiftCard\<close>.  \<open>Typing cs\<close> waits before typing \<open>cs\<close>, the rest of the code.
\<close>

datatype phase =
    Navigating
  | Expanding "element list"
  | Scrolled
  | Typing jsstring
  | Settling
  | Continuing element

record attempt =
  att_platform :: platform
  att_data :: giftCardData
  att_phase :: phase

text \<open>What a \<open>MutationObserver\<close> reports: the kind of a mutation and the nodes it added.\<close>

datatype nodeType = ELEMENT_NODE | TEXT_NODE | COMMENT_NODE

datatype mutationType = childList | attributes | characterData

record mutation =
  mutation_type :: mutationType
  addedNodes :: "nodeType list"

text \<open>
  The fields of \<open>PaymintContentScript\<close> (\<open>currentPlatform\<close>, \<open>payButton\<close>,
  \<open>observer\<close>, and \<open>detectionTimeout\<close>, the time at which the pending detection timer
  fires), together with what the script acts on: the document, the buttons appended
  to it with their parents, whether the button shows its loading state, the value of
  the gift-card input, the messages sent to the background script, the notifications
  shown, the actions performed on the page and the redemptions that are waiting.
  \<open>records\<close> is the queue of the observer: the mutations that the script itself has
  made under \<open>document.body\<close> in the current turn and that the observer has yet to
  report.  \<open>rescans\<close> counts the runs of the detection timer's callback.
\<close>

record world =
  doc :: page
  currentPlatform :: "platform option"
  payButton :: "string option"
  loading :: bool
  observer :: bool
  detectionTimeout :: "nat option"
  mounted :: "(element \<times> string) list"
  input_value :: jsstring
  sent :: "outbound list"
  notifications :: "(string \<times> jsstring) list"
  actions :: "action list"
  attempts :: "attempt list"
  records :: "mutation list"
  rescans :: nat

text \<open>
  The script adds a node somewhere under \<open>document.body\<close>.  The observer watches the
  whole subtree of the body for child-list changes, the script's own included; it
  queues a record while it is connected.
\<close>

definition appended :: "nodeType \<Rightarrow> world \<Rightarrow> world" where
  "appended node w =
     (if observer w
      then w\<lparr>records := records w @ [\<lparr>mutation_type = childList, addedNodes = [node]\<rparr>]\<rparr>
      else w)"

subsection \<open>Detection and injection\<close>

definition injectPayButton :: "world \<Rightarrow> world" where
  "injectPayButton w =
     (case currentPlatform w of
        None \<Rightarrow> w
      | Some pl \<Rightarrow>
          if payButton w \<noteq> None then w
          else
            (case getButtonInjectionPoint pl (doc w) of
               Inl e \<Rightarrow> w
             | Inr None \<Rightarrow> w
             | Inr (Some injectionPoint) \<Rightarrow>
                 (appended ELEMENT_NODE
                    (w\<lparr>payButton := Some (createPayButton pl),
                       mounted := mounted w @ [(injectionPoint, createPayButton pl)]\<rparr>))
                   \<lparr>sent := sent w @ [PAY_BUTTON_INJECTED pl (href (doc w))]\<rparr>))"

definition setupPlatformIntegration :: "world \<Rightarrow> world" where
  "setupPlatformIntegration w =
     (case currentPlatform w of
        None \<Rightarrow> w
      | Some pl \<Rightarrow>
          injectPayButton
            (case getCheckoutInfo pl (doc w) of
               None \<Rightarrow> w
             | Some checkoutInfo \<Rightarrow> w\<lparr>sent := sent w @ [CHECKOUT_INFO_DETECTED pl checkoutInfo]\<rparr>))"

text \<open>An exception of \<open>detectCurrentPlatform\<close> would leave the script as it was.\<close>

definition detectAndSetupPlatform :: "world \<Rightarrow> world" where
  "detectAndSetupPlatform w =
     (case detectCurrentPlatform (doc w) of
        Inl e \<Rightarrow> w
      | Inr None \<Rightarrow> w\<lparr>currentPlatform := None\<rparr>
      | Inr (Some pl) \<Rightarrow> setupPlatformIntegration (w\<lparr>currentPlatform := Some pl\<rparr>))"

definition retryPlatformDetection :: "world \<Rightarrow> world" where
  "retryPlatformDetection w =
     (if currentPlatform w \<noteq> None \<and> payButton w \<noteq> None then w
      else detectAndSetupPlatform w)"

subsection \<open>The mutation observer and its debounce timer\<close>

definition shouldCheck :: "mutation list \<Rightarrow> bool" where
  "shouldCheck mutations =
     list_ex (\<lambda>m. mutation_type m = childList \<and> length (addedNodes m) > 0
                 \<and> list_ex (\<lambda>node. node = ELEMENT_NODE) (addedNodes m)) mutations"

text \<open>
  The observer's callback: \<open>clearTimeout\<close> drops the pending timer, \<open>setTimeout\<close> sets
  a new one, 1000 ms from now.  A disconnected observer delivers nothing.
\<close>

definition on_mutations :: "mutation list \<Rightarrow> world \<Rightarrow> world" where
  "on_mutations mutations w =
     (if observer w \<and> shouldCheck mutations
      then w\<lparr>detectionTimeout := Some (clock (doc w) + 1000)\<rparr>
      else w)"

text \<open>
  When a turn of the script ends, the observer's callback runs on the records that
  the turn has queued, all in one batch.
\<close>

definition deliver :: "world \<Rightarrow> world" where
  "deliver w = (if records w = [] then w else on_mutations (records w) (w\<lparr>records := []\<rparr>))"

text \<open>
  The callback of the detection timer, \<open>() => this.retryPlatformDetection()\<close>, as one
  turn: the timer is spent, the re-scan runs, and the observer reports what the
  re-scan has inserted.
\<close>

definition timer_callback :: "world \<Rightarrow> world" where
  "timer_callback w =
     deliver (retryPlatformDetection (w\<lparr>detectionTimeout := None, rescans := rescans w + 1\<rparr>))"

definition fire_if_due :: "world \<Rightarrow> world" where
  "fire_if_due w =
     (case detectionTimeout w of
        None \<Rightarrow> w
      | Some t \<Rightarrow> if t \<le> clock (doc w) then timer_callback w else w)"

definition at_time :: "nat \<Rightarrow> world \<Rightarrow> world" where
  "at_time t w = w\<lparr>doc := (doc w)\<lparr>clock := t\<rparr>\<rparr>"

text \<open>
  Time passes: the clock advances by \<open>d\<close> ms.  A detection timer that is due runs its
  callback at the time it was set for; a timer that this callback has caused to be
  set is served in the same way if it falls due within the \<open>d\<close> ms.
\<close>

function elapse :: "nat \<Rightarrow> world \<Rightarrow> world" where
  "elapse d w =
     (let w0 = fire_if_due w;
          now = clock (doc w0)
      in case detectionTimeout w0 of
           None \<Rightarrow> at_time (now + d) w0
         | Some t \<Rightarrow>
             if now < t \<and> t \<le> now + d then elapse (now + d - t) (at_time t w0)
             else at_time (now + d) w0)"
  by pat_completeness auto
termination
  by (relation "measure fst") auto

declare elapse.simps [simp del]

subsection \<open>Cleanup\<close>

text \<open>\<open>disconnect\<close> also discards the records that were not delivered.\<close>

definition cleanup :: "world \<Rightarrow> world" where
  "cleanup w =
     (let w1 = (if observer w then w\<lparr>observer := False, records := []\<rparr> else w)
      in case payButton w1 of
           None \<Rightarrow> w1
         | Some b \<Rightarrow> w1\<lparr>mounted := filter (\<lambda>m. snd m \<noteq> b) (mounted w1), payButton := None\<rparr>)"

subsection \<open>Redemption\<close>

fun displayName :: "platform \<Rightarrow> jsstring" where
  "displayName Amazon = ustr ''Amazon''"
| "displayName Netflix = ustr ''Netflix''"
| "displayName Dominos = ustr ''Domino'' @ [0x27] @ ustr ''s Pizza''"

fun giftCardSection :: "platform \<Rightarrow> string list" where
  "giftCardSection Amazon = amazon_giftCardSection"
| "giftCardSection Netflix = netflix_giftCardSection"
| "giftCardSection Dominos = dominos_giftCardSection"

fun giftCardInput :: "platform \<Rightarrow> string list" where
  "giftCardInput Amazon = amazon_giftCardInput"
| "giftCardInput Netflix = netflix_giftCardInput"
| "giftCardInput Dominos = dominos_giftCardInput"

fun applyButton :: "platform \<Rightarrow> string list" where
  "applyButton Amazon = amazon_applyButton"
| "applyButton Netflix = netflix_applyButton"
| "applyButton Dominos = dominos_applyButton"

fun verify :: "platform \<Rightarrow> page \<Rightarrow> error + bool" where
  "verify Amazon p = amazon_verifyGiftCardApplication p"
| "verify Netflix p = netflix_verifyGiftCardRedemption p"
| "verify Dominos p = dominos_verifyGiftCardApplication p"

definition act :: "action \<Rightarrow> world \<Rightarrow> world" where
  "act a w = w\<lparr>actions := actions w @ [a]\<rparr>"

text \<open>
  A notification is an element appended to \<open>document.body\<close>.  Its style sheet goes
  to \<open>document.head\<close>, which the observer does not watch, and its removal five
  seconds later adds no node.
\<close>

definition showNotification :: "string \<Rightarrow> jsstring \<Rightarrow> world \<Rightarrow> world" where
  "showNotification kind message w =
     appended ELEMENT_NODE (w\<lparr>notifications := notifications w @ [(kind, message)]\<rparr>)"

text \<open>
  A call of a platform's \<open>applyGiftCard\<close> runs until its next \<open>await this.wait(...)\<close>
  and is then pending in a phase, or it returns.  Every exception inside it is caught
  and makes it return \<open>false\<close>.
\<close>

datatype outcome = Pending phase | Returned bool

text \<open>Find the gift-card section and scroll to it.\<close>

definition locate :: "platform \<Rightarrow> world \<Rightarrow> world \<times> outcome" where
  "locate pl w =
     (case findElement (doc w) (giftCardSection pl) of
        Inl e \<Rightarrow> (w, Returned False)
      | Inr None \<Rightarrow> (w, Returned False)
      | Inr (Some section) \<Rightarrow> (act (ScrollTo section) w, Pending Scrolled))"

text \<open>Netflix: \<open>navigateToGiftCardRedemption\<close>, up to its wait.\<close>

definition netflix_navigate :: "world \<Rightarrow> world \<times> outcome" where
  \<open>netflix_navigate w =
     (case querySelector (doc w) ''a[href*="/redeem"], a[href*="gift"]'' of
        Inl e \<Rightarrow> (w, Returned False)
      | Inr (Some redeemLink) \<Rightarrow> (act (Click redeemLink) w, Pending Navigating)
      | Inr None \<Rightarrow>
          (act (SetLocation (ustr ''https://'' @ hostname (doc w) @ ustr ''/redeem'')) w,
           Pending Navigating))\<close>

text \<open>Domino's: the loop over the links that may expand the gift-card section.\<close>

fun expand_next :: "element list \<Rightarrow> world \<Rightarrow> world \<times> outcome" where
  "expand_next [] w = (w, Returned False)"
| "expand_next (link # rest) w = (act (Click link) w, Pending (Expanding rest))"

definition dominos_locate :: "element list option \<Rightarrow> world \<Rightarrow> world \<times> outcome" where
  \<open>dominos_locate remaining w =
     (case findElement (doc w) dominos_giftCardSection of
        Inl e \<Rightarrow> (w, Returned False)
      | Inr (Some section) \<Rightarrow> (act (ScrollTo section) w, Pending Scrolled)
      | Inr None \<Rightarrow>
          (case remaining of
             Some links \<Rightarrow> expand_next links w
           | None \<Rightarrow>
               (case querySelectorAll (doc w)
                       ''a[href*="gift"], button[data-quid*="gift"], .add-gift-card, .promo-code-toggle'' of
                  Inl e \<Rightarrow> (w, Returned False)
                | Inr expandLinks \<Rightarrow> expand_next expandLinks w)))\<close>

text \<open>The part of \<open>applyGiftCard\<close> that runs when it is called.\<close>

fun start :: "platform \<Rightarrow> world \<Rightarrow> world \<times> outcome" where
  "start Amazon w = locate Amazon w"
| "start Netflix w =
     (if \<not> str_includes (pathname (doc w)) (ustr ''/redeem'') then netflix_navigate w
      else locate Netflix w)"
| "start Dominos w = dominos_locate None w"

text \<open>Submitting: only Domino's falls back to the Enter key when no button resolves.\<close>

definition submit :: "platform \<Rightarrow> world \<Rightarrow> world \<times> outcome" where
  "submit pl w =
     (case findElement (doc w) (applyButton pl) of
        Inl e \<Rightarrow> (w, Returned False)
      | Inr (Some button) \<Rightarrow> (act (Click button) w, Pending Settling)
      | Inr None \<Rightarrow>
          if pl = Dominos then (act EnterKey w, Pending Settling) else (w, Returned False))"

fun platform_success_message :: "platform \<Rightarrow> jsstring" where
  "platform_success_message Amazon = ustr ''Gift card applied to Amazon checkout!''"
| "platform_success_message Netflix = ustr ''Gift card applied to Netflix account!''"
| "platform_success_message Dominos = ustr ''Gift card applied to your Dominos order!''"

text \<open>After the settle delay: verification, and for Netflix \<open>continueSignupFlow\<close>.\<close>

definition conclude :: "platform \<Rightarrow> world \<Rightarrow> world \<times> outcome" where
  "conclude pl w =
     (case verify pl (doc w) of
        Inl e \<Rightarrow> (w, Returned False)
      | Inr False \<Rightarrow> (w, Returned False)
      | Inr True \<Rightarrow>
          (let w1 = showNotification ''platform-success'' (platform_success_message pl) w
           in if pl = Netflix then
                (case findElement (doc w1) netflix_continueButton of
                   Inl e \<Rightarrow> (w1, Returned False)
                 | Inr (Some continueButton) \<Rightarrow> (w1, Pending (Continuing continueButton))
                 | Inr None \<Rightarrow> (w1, Returned True))
              else (w1, Returned True)))"

text \<open>
  The continuation of a pending call when its timer fires.  \<open>typeText\<close> appends one
  character to the value of the input per step (\<open>input.value += char\<close>); the code is
  taken to consist of characters of the Basic Multilingual Plane, one code unit each.
\<close>

fun step :: "platform \<Rightarrow> giftCardData \<Rightarrow> phase \<Rightarrow> world \<Rightarrow> world \<times> outcome" where
  "step pl d Navigating w = locate pl w"
| "step pl d (Expanding rest) w = dominos_locate (Some rest) w"
| "step pl d Scrolled w =
     (case findElement (doc w) (giftCardInput pl) of
        Inl e \<Rightarrow> (w, Returned False)
      | Inr None \<Rightarrow> (w, Returned False)
      | Inr (Some inputField) \<Rightarrow>
          ((act (Focus inputField) w)\<lparr>input_value := []\<rparr>, Pending (Typing (code d))))"
| "step pl d (Typing (c # cs)) w = (w\<lparr>input_value := input_value w @ [c]\<rparr>, Pending (Typing cs))"
| "step pl d (Typing []) w = submit pl w"
| "step pl d Settling w = conclude pl w"
| "step pl d (Continuing continueButton) w = (act (Click continueButton) w, Returned True)"

text \<open>
  The content script's \<open>applyGiftCard\<close>: what follows \<open>await
  this.currentPlatform.applyGiftCard(giftCardData)\<close> once the call has returned.  It
  reads \<open>this.currentPlatform\<close> again; were that null by then, the TypeError is caught
  and reported.
\<close>

definition finish :: "giftCardData \<Rightarrow> bool \<Rightarrow> world \<Rightarrow> world" where
  "finish d success w =
     (if success then
        (case currentPlatform w of
           None \<Rightarrow> showNotification ''error'' (ustr ''Error applying gift card. Please try manually.'') w
         | Some pl \<Rightarrow>
             (showNotification ''success'' (ustr ''Gift card applied to '' @ displayName pl @ ustr ''!'') w)
               \<lparr>sent := sent w @ [GIFT_CARD_APPLIED_SUCCESS pl d]\<rparr>)
      else
        (let w1 = showNotification ''error'' (ustr ''Gift card application failed. Please try manually.'') w
         in case currentPlatform w1 of
              None \<Rightarrow> showNotification ''error'' (ustr ''Error applying gift card. Please try manually.'') w1
            | Some pl \<Rightarrow> w1\<lparr>sent := sent w1 @ [GIFT_CARD_APPLIED_FAILED pl d]\<rparr>))"

text \<open>
  Calling \<open>applyGiftCard\<close>: nothing is consulted but \<open>this.currentPlatform\<close>.  A call
  that reaches a wait joins the pending ones.
\<close>

definition applyGiftCard :: "giftCardData \<Rightarrow> world \<Rightarrow> world" where
  "applyGiftCard d w =
     (case currentPlatform w of
        None \<Rightarrow> w
      | Some pl \<Rightarrow>
          (case start pl w of
             (w1, Pending ph) \<Rightarrow>
               w1\<lparr>attempts := attempts w1 @ [\<lparr>att_platform = pl, att_data = d, att_phase = ph\<rparr>]\<rparr>
           | (w1, Returned success) \<Rightarrow> finish d success w1))"

text \<open>The timer of the pending call number \<open>i\<close> fires.\<close>

definition resume :: "nat \<Rightarrow> world \<Rightarrow> world" where
  "resume i w =
     (if i < length (attempts w) then
        (let a = attempts w ! i
         in case step (att_platform a) (att_data a) (att_phase a) w of
              (w1, Pending ph) \<Rightarrow> w1\<lparr>attempts := (attempts w1)[i := a\<lparr>att_phase := ph\<rparr>]\<rparr>
            | (w1, Returned success) \<Rightarrow>
                finish (att_data a) success
                  (w1\<lparr>attempts := take i (attempts w1) @ drop (Suc i) (attempts w1)\<rparr>))
      else w)"

subsection \<open>Messages from the background script\<close>

datatype inbound =
    APPLY_GIFT_CARD giftCardData
  | GET_CHECKOUT_INFO
  | PAYMENT_COMPLETED
  | PAYMENT_FAILED "jsstring option"
  | OTHER jsstring

datatype response =
    Success bool
  | CheckoutInfoResponse "checkoutInfo option"

text \<open>Assigning \<open>textContent\<close> replaces the children of the button by one text node.\<close>

definition setPayButtonLoading :: "bool \<Rightarrow> world \<Rightarrow> world" where
  "setPayButtonLoading b w =
     (if payButton w = None then w else appended TEXT_NODE (w\<lparr>loading := b\<rparr>))"

text \<open>
  The listener answers in the same turn in which the message arrives:
  \<open>this.applyGiftCard(message.giftCardData)\<close> is not awaited, and the response does
  not depend on it.
\<close>

fun onMessage :: "inbound \<Rightarrow> world \<Rightarrow> response \<times> world" where
  "onMessage (APPLY_GIFT_CARD d) w = (Success True, applyGiftCard d w)"
| "onMessage GET_CHECKOUT_INFO w =
     (CheckoutInfoResponse
        (case currentPlatform w of None \<Rightarrow> None | Some pl \<Rightarrow> getCheckoutInfo pl (doc w)), w)"
| "onMessage PAYMENT_COMPLETED w =
     (Success True,
      showNotification ''success'' (ustr ''Payment completed successfully!'') (setPayButtonLoading False w))"
| "onMessage (PAYMENT_FAILED err) w =
     (Success True,
      showNotification ''error''
        (case err of
           None \<Rightarrow> ustr ''Payment failed. Please try again.''
         | Some m \<Rightarrow> if m = [] then ustr ''Payment failed. Please try again.'' else m)
        (setPayButtonLoading False w))"
| "onMessage (OTHER t) w = (Success False, w)"

text \<open>The click handler of the button.\<close>

definition handlePayButtonClick :: "world \<Rightarrow> world" where
  "handlePayButtonClick w =
     (case currentPlatform w of
        None \<Rightarrow> w
      | Some pl \<Rightarrow>
          (case getCheckoutInfo pl (doc w) of
             None \<Rightarrow> showNotification ''error'' (ustr ''Unable to process payment. Please try again.'') w
           | Some checkoutInfo \<Rightarrow>
               (setPayButtonLoading True w)
                 \<lparr>sent := sent w @ [INITIATE_CRYPTO_PAYMENT pl checkoutInfo (clock (doc w))]\<rparr>))"

subsection \<open>Initialisation and the events of a page session\<close>

definition blank :: "page \<Rightarrow> world" where
  "blank p =
     \<lparr>doc = p, currentPlatform = None, payButton = None, loading = False, observer = False,
      detectionTimeout = None, mounted = [], input_value = [], sent = [], notifications = [],
      actions = [], attempts = [], records = [], rescans = 0\<rparr>"

text \<open>
  \<open>initialize\<close> on a loaded page: on a supported domain the script detects the
  platform, connects the observer and registers the message listener.  The events
  below are those of a script that has done so.
\<close>

definition initialize :: "page \<Rightarrow> world" where
  "initialize p =
     (if \<not> isSupportedDomain (hostname p) then blank p
      else (detectAndSetupPlatform (blank p))\<lparr>observer := True\<rparr>)"

datatype event =
    Mutations "mutation list"
  | Elapse nat
  | Message inbound
  | Resume nat
  | DomChange page
  | ClickPay
  | Unload

text \<open>
  What the script runs on an event, and the event as a whole turn: the observer's
  report of the script's own insertions comes at its end.  \<open>Mutations\<close> are the
  changes that the page itself makes.
\<close>

fun handle :: "event \<Rightarrow> world \<Rightarrow> world" where
  "handle (Mutations ms) w = on_mutations ms w"
| "handle (Elapse d) w = elapse d w"
| "handle (Message m) w = snd (onMessage m w)"
| "handle (Resume i) w = resume i w"
| "handle (DomChange p) w = w\<lparr>doc := p\<lparr>clock := clock (doc w)\<rparr>\<rparr>"
| "handle ClickPay w = (if payButton w = None then w else handlePayButtonClick w)"
| "handle Unload w = cleanup w"

definition fire :: "event \<Rightarrow> world \<Rightarrow> world" where
  "fire e w = deliver (handle e w)"

fun run :: "event list \<Rightarrow> world \<Rightarrow> world" where
  "run [] w = w"
| "run (e # es) w = run es (fire e w)"

section \<open>Notions used in the statements\<close>






text \<open>The path fragments and the selector chains that each \<open>isDetected\<close> consults.\<close>

fun relevantPaths :: "platform \<Rightarrow> string list" where
  "relevantPaths Amazon = amazon_checkoutPaths"
| "relevantPaths Netflix = netflix_relevantPaths"
| "relevantPaths Dominos = dominos_relevantPaths"

fun probed_chains :: "platform \<Rightarrow> string list" where
  "probed_chains Amazon = amazon_buyNowButton"
| "probed_chains Netflix = netflix_planSelection @ netflix_paymentStep @ netflix_giftCardSection"
| "probed_chains Dominos = dominos_totalPrice @ dominos_cartItems @ dominos_paymentSection"

text \<open>
  The four chains under \<open>selectors.checkout\<close> of each platform class: total price,
  gift-card section, gift-card input and apply button.
\<close>

fun checkout_chains :: "platform \<Rightarrow> string list" where
  "checkout_chains Amazon =
     amazon_totalPrice @ amazon_giftCardSection @ amazon_giftCardInput @ amazon_applyButton"
| "checkout_chains Netflix =
     netflix_totalPrice @ netflix_giftCardSection @ netflix_giftCardInput @ netflix_applyButton"
| "checkout_chains Dominos =
     dominos_totalPrice @ dominos_giftCardSection @ dominos_giftCardInput @ dominos_applyButton"

text \<open>
  The first element that a selector selects has a text that contains the word, in
  upper or lower case.
\<close>

definition has_text :: "page \<Rightarrow> string \<Rightarrow> string \<Rightarrow> bool" where
  "has_text p word selector =
     (case first_of (nodes p selector) of
        None \<Rightarrow> False
      | Some el \<Rightarrow> str_includes (text_lower (textContent el)) (ustr word))"

text \<open>
  A burst of signals: a first batch of mutations and then further batches, each with
  the time that has passed since the one before.
\<close>

fun burst_events :: "mutation list \<Rightarrow> (nat \<times> mutation list) list \<Rightarrow> event list" where
  "burst_events first rest =
     Mutations first # concat (map (\<lambda>(gap, ms). [Elapse gap, Mutations ms]) rest)"

text \<open>
  The observer is connected, it has nothing left to report, and the detection timer
  was set just now.
\<close>

definition armed :: "world \<Rightarrow> bool" where
  "armed w = (observer w \<and> records w = [] \<and> detectionTimeout w = Some (clock (doc w) + 1000))"

text \<open>
  What a step of detection and injection does to the observer's queue, between the
  state \<open>w\<close> before it and the state \<open>w'\<close> after it: it queues one record of an added
  element if the observer is connected and the step has mounted the button, that is
  changed \<open>payButton\<close>, and nothing otherwise; and with a button mounted by the step
  both the platform and the button are set.
\<close>

definition inserted :: "world \<Rightarrow> world \<Rightarrow> bool" where
  "inserted w w' =
     (records w' = (if observer w \<and> payButton w' \<noteq> payButton w
                    then records w @ [\<lparr>mutation_type = childList, addedNodes = [ELEMENT_NODE]\<rparr>]
                    else records w)
      \<and> (payButton w' \<noteq> payButton w \<longrightarrow> currentPlatform w' \<noteq> None \<and> payButton w' \<noteq> None))"

text \<open>
  The host name is one of the platform's domains or a subdomain of one: it is the
  domain, or it ends with a dot and the domain.
\<close>

definition ends_with :: "jsstring \<Rightarrow> jsstring \<Rightarrow> bool" where
  "ends_with s suffix = starts_with (rev s) (rev suffix)"

definition host_listed :: "jsstring \<Rightarrow> platform \<Rightarrow> bool" where
  "host_listed host pl =
     list_ex (\<lambda>d. host = ustr d \<or> ends_with host (ustr (''.'' @ d))) (supportedDomains pl)"

text \<open>
  A pattern that cannot match without reading a digit, and the relation between the
  state before and a state after a match: the input before is the input after with
  the matched text in front, which contains a digit if so required.
\<close>

fun needs_digit :: "rx \<Rightarrow> bool" where
  "needs_digit Eps = False"
| "needs_digit (Atom k) = (k = Digit)"
| "needs_digit (Seq a b) = (needs_digit a \<or> needs_digit b)"
| "needs_digit (Alt a b) = (needs_digit a \<and> needs_digit b)"
| "needs_digit (Opt a) = False"
| "needs_digit (Star a) = False"
| "needs_digit (Grp n a) = needs_digit a"

definition consumed :: "bool \<Rightarrow> mstate \<Rightarrow> mstate \<Rightarrow> bool" where
  "consumed dig st st' = (\<exists>pre. fst st = pre @ fst st' \<and> (dig \<longrightarrow> (\<exists>d\<in>set pre. is_digit d)))"

section \<open>Example pages and sessions\<close>

text \<open>
  Amazon's page for redeeming a gift card: the input is there, the path is not one
  of the checkout paths.
\<close>

definition amazon_redeem_page :: page where
  "amazon_redeem_page =
     \<lparr>hostname = ustr ''www.amazon.com'', pathname = ustr ''/gc/redeem'',
      href = ustr ''https://www.amazon.com/gc/redeem'',
      nodes = (\<lambda>s. if s = ''#gc-redemption-input'' then [Element [] [] []] else []),
      clock = 0\<rparr>"

text \<open>Amazon's cart before anything of it has rendered.\<close>

definition amazon_cart_page :: page where
  "amazon_cart_page =
     \<lparr>hostname = ustr ''www.amazon.com'', pathname = ustr ''/gp/cart/view.html'',
      href = ustr ''https://www.amazon.com/gp/cart/view.html'',
      nodes = (\<lambda>s. []), clock = 0\<rparr>"

text \<open>
  A page of another site whose host name contains one of Amazon's domains without
  being that domain or a subdomain of it.
\<close>

definition amazon_look_alike :: page where
  "amazon_look_alike =
     \<lparr>hostname = ustr ''amazon.com.evil.example'', pathname = ustr ''/checkout/'',
      href = ustr ''https://amazon.com.evil.example/checkout/'',
      nodes = (\<lambda>s. []), clock = 0\<rparr>"

text \<open>A checkout page of which only the total has rendered, for Amazon and for Domino's.\<close>

definition amazon_total_only :: page where
  "amazon_total_only =
     \<lparr>hostname = ustr ''www.amazon.com'', pathname = ustr ''/gp/buy/spc/handlers/display.html'',
      href = ustr ''https://www.amazon.com/gp/buy/spc/handlers/display.html'',
      nodes = (\<lambda>s. if s = ''.grand-total-price-value'' then [Element (ustr ''$25.99'') [] []] else []),
      clock = 1700000000000\<rparr>"

definition dominos_total_only :: page where
  "dominos_total_only =
     \<lparr>hostname = ustr ''www.dominos.com'', pathname = ustr ''/en/pages/order/payment'',
      href = ustr ''https://www.dominos.com/en/pages/order/payment'',
      nodes = (\<lambda>s. if s = ''#total-price'' then [Element (ustr ''$25.99'') [] []] else []),
      clock = 1700000000000\<rparr>"

text \<open>A checkout page of Domino's with its total and the list of payment methods.\<close>

definition dominos_checkout :: page where
  "dominos_checkout =
     \<lparr>hostname = ustr ''www.dominos.com'', pathname = ustr ''/en/pages/order/payment'',
      href = ustr ''https://www.dominos.com/en/pages/order/payment'',
      nodes = (\<lambda>s. if s = ''#total-price'' then [Element (ustr ''$25.99'') [] []]
                    else if s = ''.payment-methods'' then [Element [] [] []] else []),
      clock = 1700000000000\<rparr>"

text \<open>The script on that page once Domino's has been detected and nothing is mounted yet.\<close>

definition detected_dominos :: world where
  "detected_dominos = (blank dominos_checkout)\<lparr>currentPlatform := Some Dominos\<rparr>"

text \<open>A batch of mutations that adds an element.\<close>

definition element_added :: "mutation list" where
  "element_added = [\<lparr>mutation_type = childList, addedNodes = [ELEMENT_NODE]\<rparr>]"

text \<open>
  The start page of Domino's, on which the script finds no platform, and the script
  after the site has gone on to its checkout without loading a new document: the
  observer is connected, no platform is detected yet and no button is mounted.
\<close>

definition dominos_home :: page where
  "dominos_home =
     \<lparr>hostname = ustr ''www.dominos.com'', pathname = ustr ''/'',
      href = ustr ''https://www.dominos.com/'',
      nodes = (\<lambda>s. []), clock = 1700000000000\<rparr>"

definition rendered_dominos :: world where
  "rendered_dominos = run [DomChange dominos_checkout] (initialize dominos_home)"

text \<open>
  A session on the Domino's page: a batch of mutations adds an element, and 400 ms
  later the page is left (\<open>beforeunload\<close> runs \<open>cleanup\<close>).
\<close>

definition unloaded_dominos :: world where
  "unloaded_dominos = run [Mutations element_added, Elapse 400, Unload] (initialize dominos_checkout)"

text \<open>
  A checkout page of Amazon with its total, the gift-card section, its input and the
  apply button; a gift card with a given code; and two commands to apply a gift
  card, one after the other.
\<close>

definition amazon_checkout :: page where
  "amazon_checkout =
     \<lparr>hostname = ustr ''www.amazon.com'', pathname = ustr ''/gp/buy/spc/handlers/display.html'',
      href = ustr ''https://www.amazon.com/gp/buy/spc/handlers/display.html'',
      nodes = (\<lambda>s. if s = ''.grand-total-price-value'' then [Element (ustr ''$25.99'') [] []]
                    else if s = ''#gc-redemption-section'' then [Element [] [] []]
                    else if s = ''#gc-redemption-input'' then [Element [] [] []]
                    else if s = ''#gc-redemption-apply-button'' then [Element [] [] []]
                    else []),
      clock = 1700000000000\<rparr>"

definition gift :: "string \<Rightarrow> giftCardData" where
  "gift c = \<lparr>code = ustr c, gc_amount = 25, gc_currency = ustr ''USD'', gc_platform = ustr ''amazon''\<rparr>"

definition two_commands :: "event list" where
  "two_commands = [Message (APPLY_GIFT_CARD (gift ''AB'')), Message (APPLY_GIFT_CARD (gift ''CD''))]"

section \<open>Evaluation\<close>

text \<open>The defining equations that evaluate the parsers on a given text.\<close>

lemma rx_times_numeral:
  "rx_times 2 r = Seq r (Seq r Eps)"
  "rx_times 3 r = Seq r (Seq r (Seq r Eps))"
  by (simp_all add: numeral_2_eq_2 numeral_3_eq_3)

lemmas string_defs =
  ustr_def DOLLAR_def POUND_def EURO_def RUPEE_def COMMA_def DOT_def COLON_def SLASH_def SPACE_def
  is_digit_def is_upper_def is_ws_def trim_def strip_commas_def digits_value_def parseFloat_def
  lower_unit_def lower_units_def text_lower_def Let_def

lemmas rx_defs =
  canon_def rx_test_def match_group_def lit_def rx_plus_def one_to_three_def cents_def
  thousands_def amount_plain_def amount_grouped_def amount_grouped3_def symbol3_def symbol4_def
  symbol_first_or_code_after_def price_shape_def rx_times_numeral

lemmas parser_defs =
  amazon_patterns_def amazon_currency_def parseAmazonPrice_def
  dominos_patterns_def dominos_getCurrencyFromSymbol_def parseDominosPrice_def
  per_sep_def mesyats_def netflix_patterns_def netflix_getCurrencyFromSymbol_def parseNetflixPrice_def

section \<open>Texts without a digit\<close>

text \<open>
  Every result of the matcher is a suffix of its input, and a pattern that needs a
  digit has consumed one.  All price patterns need a digit, so a text without digits
  is parsed to \<open>null\<close> by each of the three parsers.
\<close>

lemma consumed_refl: "consumed False st st"
  by (simp add: consumed_def)

lemma consumed_trans:
  "consumed a st st' \<Longrightarrow> consumed b st' st'' \<Longrightarrow> consumed (a \<or> b) st st''"
  by (auto simp: consumed_def)

lemma consumed_weaken: "consumed a st st' \<Longrightarrow> (b \<longrightarrow> a) \<Longrightarrow> consumed b st st'"
  by (auto simp: consumed_def)

lemma iter_consumed:
  assumes f: "\<And>st st'. st' \<in> set (f st) \<Longrightarrow> consumed False st st'"
  shows "st' \<in> set (iter f n st) \<Longrightarrow> consumed False st st'"
proof (induction n arbitrary: st st')
  case 0
  then show ?case by (simp add: consumed_refl)
next
  case (Suc n)
  from Suc.prems consider "st' = st"
    | mid where "mid \<in> set (f st)" and "st' \<in> set (iter f n mid)"
    by auto
  then show ?case
  proof cases
    case 1
    then show ?thesis by (simp add: consumed_refl)
  next
    case 2
    from consumed_trans [OF f [OF 2(1)] Suc.IH [OF 2(2)]] show ?thesis by simp
  qed
qed

lemma rxm_consumed:
  "st' \<in> set (rxm ci r st) \<Longrightarrow> consumed (needs_digit r) st st'"
proof (induction r arbitrary: st st')
  case Eps
  then show ?case by (simp add: consumed_refl)
next
  case (Atom k)
  then show ?case
    by (cases "fst st") (auto simp: consumed_def split: if_splits)
next
  case (Seq a b)
  from Seq.prems obtain mid where "mid \<in> set (rxm ci a st)" and "st' \<in> set (rxm ci b mid)"
    by auto
  from consumed_trans [OF Seq.IH(1) [OF this(1)] Seq.IH(2) [OF this(2)]] show ?case by simp
next
  case (Alt a b)
  from Alt.prems have "st' \<in> set (rxm ci a st) \<or> st' \<in> set (rxm ci b st)" by simp
  then show ?case
    using Alt.IH consumed_weaken by (metis needs_digit.simps(4))
next
  case (Opt a)
  from Opt.prems have "st' \<in> set (rxm ci a st) \<or> st' = st" by auto
  then show ?case
    using Opt.IH consumed_weaken consumed_refl by (metis needs_digit.simps(5))
next
  case (Star a)
  have "consumed False u u'" if "u' \<in> set (rxm ci a u)" for u u'
    using Star.IH [OF that] consumed_weaken by blast
  from iter_consumed [of "rxm ci a", OF this] Star.prems show ?case by simp
next
  case (Grp n a)
  from Grp.prems obtain u where u: "u \<in> set (rxm ci a st)" and "fst st' = fst u"
    by auto
  with Grp.IH [OF u] show ?case by (simp add: consumed_def)
qed

lemma rxm_needs_digit:
  assumes "needs_digit r" and "\<forall>d\<in>set s. \<not> is_digit d"
  shows "rxm ci r (s, c) = []"
proof (cases "rxm ci r (s, c)")
  case Nil
  then show ?thesis .
next
  case (Cons m ms)
  then have "m \<in> set (rxm ci r (s, c))" by simp
  from rxm_consumed [OF this] assms(1)
  obtain pre d where "s = pre @ fst m" and "d \<in> set pre" and "is_digit d"
    by (auto simp: consumed_def)
  with assms(2) show ?thesis by auto
qed

lemma rx_exec_needs_digit:
  "needs_digit r \<Longrightarrow> \<forall>d\<in>set s. \<not> is_digit d \<Longrightarrow> rx_exec ci r s = None"
  by (induction s) (simp_all add: rxm_needs_digit)

lemma clean_no_digit:
  assumes "\<forall>d\<in>set s. \<not> is_digit d"
  shows "\<forall>d\<in>set (trim (collapse_ws s)). \<not> is_digit d"
proof -
  have c: "\<forall>d\<in>set t. \<not> is_digit d \<Longrightarrow> \<forall>d\<in>set (collapse_ws t). \<not> is_digit d" for t
  proof (induction t rule: collapse_ws.induct)
    case 1
    then show ?case by simp
  next
    case (2 c cs)
    have "\<forall>d\<in>set (dropWhile is_ws cs). \<not> is_digit d"
      using 2(3) set_dropWhileD by fastforce
    with 2 show ?case
      by (auto simp: SPACE_def is_digit_def)
  qed
  have "set (trim t) \<subseteq> set t" for t
    by (auto simp: trim_def dest!: set_dropWhileD)
  with c [OF assms] show ?thesis by blast
qed

lemma patterns_need_digits:
  "\<forall>r\<in>set amazon_patterns. needs_digit r"
  "\<forall>(ci, r)\<in>set dominos_patterns. needs_digit r"
  "\<forall>(ci, r)\<in>set netflix_patterns. needs_digit r"
  by (simp_all add: amazon_patterns_def dominos_patterns_def netflix_patterns_def amount_grouped_def
      amount_plain_def amount_grouped3_def rx_plus_def one_to_three_def)

lemma loops_no_digit:
  assumes "\<forall>d\<in>set t. \<not> is_digit d"
  shows "\<forall>r\<in>set ps. needs_digit r \<Longrightarrow> amazon_patterns_loop ps t = Inr None"
    and "\<forall>(ci, r)\<in>set qs. needs_digit r \<Longrightarrow> dominos_patterns_loop qs t = None"
    and "\<forall>(ci, r)\<in>set qs. needs_digit r \<Longrightarrow> netflix_patterns_loop qs t = None"
proof -
  show "\<forall>r\<in>set ps. needs_digit r \<Longrightarrow> amazon_patterns_loop ps t = Inr None"
    by (induction ps) (simp_all add: rx_exec_needs_digit assms)
  show "\<forall>(ci, r)\<in>set qs. needs_digit r \<Longrightarrow> dominos_patterns_loop qs t = None"
    by (induction qs) (auto simp: rx_exec_needs_digit assms)
  show "\<forall>(ci, r)\<in>set qs. needs_digit r \<Longrightarrow> netflix_patterns_loop qs t = None"
    by (induction qs) (auto simp: rx_exec_needs_digit assms)
qed

lemma parsers_no_digit:
  assumes "\<forall>d\<in>set priceText. \<not> is_digit d"
  shows "parseAmazonPrice priceText = Inr None"
    and "parseDominosPrice priceText = None"
    and "parseNetflixPrice priceText = None"
  using loops_no_digit [OF clean_no_digit [OF assms]] patterns_need_digits
  by (simp_all add: parseAmazonPrice_def parseDominosPrice_def parseNetflixPrice_def)

section \<open>The price parsers on the examples\<close>

lemma parseAmazonPrice_examples:
  "parseAmazonPrice (ustr ''$1,234.56'') = Inr (Some \<lparr>amount = 1234.56, currency = ustr ''USD''\<rparr>)"
  "parseAmazonPrice (ustr ''Total: '' @ [POUND] @ ustr ''12.99'')
     = Inr (Some \<lparr>amount = 12.99, currency = ustr ''GBP''\<rparr>)"
  "parseAmazonPrice (ustr ''15.99 USD'') = Inr (Some \<lparr>amount = 15.99, currency = ustr ''USD''\<rparr>)"
  "parseAmazonPrice ([EURO] @ ustr ''14.50'') = Inr (Some \<lparr>amount = 14.50, currency = ustr ''EUR''\<rparr>)"
  by (simp_all add: string_defs rx_defs parser_defs)

lemma parseDominosPrice_examples:
  "parseDominosPrice (ustr ''Total: '' @ [POUND] @ ustr ''12.99'')
     = Some \<lparr>amount = 12.99, currency = ustr ''GBP''\<rparr>"
  "parseDominosPrice (ustr ''15.99 USD'') = Some \<lparr>amount = 15.99, currency = ustr ''USD''\<rparr>"
  "parseDominosPrice ([EURO] @ ustr ''14.50'') = Some \<lparr>amount = 14.50, currency = ustr ''EUR''\<rparr>"
  by (simp_all add: string_defs rx_defs parser_defs)

lemma parseNetflixPrice_examples:
  "parseNetflixPrice (ustr ''$1,234.56'') = Some \<lparr>amount = 1, currency = ustr ''USD''\<rparr>"
  "parseNetflixPrice (ustr ''Total: '' @ [POUND] @ ustr ''12.99'')
     = Some \<lparr>amount = 12.99, currency = ustr ''GBP''\<rparr>"
  "parseNetflixPrice (ustr ''15.99 USD'') = Some \<lparr>amount = 15.99, currency = ustr ''USD''\<rparr>"
  "parseNetflixPrice ([EURO] @ ustr ''14.50'') = Some \<lparr>amount = 14.50, currency = ustr ''EUR''\<rparr>"
  by (simp_all add: string_defs rx_defs parser_defs)

text \<open>
  The fourth pattern of Domino's, the one written for \<open>$1,234.56\<close>, does read that
  text when it is tried alone.
\<close>

lemma dominos_comma_pattern_alone:
  "dominos_patterns_loop [dominos_patterns ! 3] (ustr ''$1,234.56'')
     = Some \<lparr>amount = 1234.56, currency = ustr ''USD''\<rparr>"
  by (simp add: string_defs rx_defs parser_defs)

text \<open>
  C2.  The price parsers try their patterns in order and return the first match
  that yields a number: \<open>$1,234.56\<close> is to give 1234.56 USD on every platform.
  Domino's parser gives 1 USD instead: its first pattern, a currency symbol and
  \<open>\d+(?:\.\d{2})?\<close>, already matches \<open>$1\<close>, so the pattern for grouped thousands is
  never tried.
\<close>

theorem parseDominosPrice_grouped_thousands:
  "parseDominosPrice (ustr ''$1,234.56'') = Some \<lparr>amount = 1, currency = ustr ''USD''\<rparr>"
  by (simp add: string_defs rx_defs parser_defs)

section \<open>Selectors and \<open>findElement\<close>\<close>

lemmas selector_lists =
  amazon_totalPrice_def amazon_giftCardSection_def amazon_giftCardInput_def amazon_applyButton_def
  amazon_product_price_def amazon_buyNowButton_def amazon_itemSelectors_def
  dominos_totalPrice_def dominos_giftCardSection_def dominos_giftCardInput_def dominos_applyButton_def
  dominos_cartItems_def dominos_itemName_def dominos_itemPrice_def dominos_paymentSection_def
  netflix_totalPrice_def netflix_giftCardSection_def netflix_giftCardInput_def netflix_applyButton_def
  netflix_planSelection_def netflix_selectedPlan_def netflix_paymentStep_def netflix_continueButton_def

lemmas detection_defs =
  some_included_def amazon_supportedDomains_def netflix_supportedDomains_def dominos_supportedDomains_def
  amazon_checkoutPaths_def netflix_relevantPaths_def dominos_relevantPaths_def

lemma first_of_None: "first_of xs = None \<longleftrightarrow> xs = []"
  by (cases xs) (simp_all add: first_of_def)

lemma first_of_append:
  "first_of (xs @ ys) = (case first_of xs of Some x \<Rightarrow> Some x | None \<Rightarrow> first_of ys)"
  by (cases xs) (simp_all add: first_of_def)

lemma querySelector_ok:
  "selector_ok s \<Longrightarrow> querySelector p s = Inr (first_of (nodes p s))"
  by (simp add: querySelector_def querySelectorAll_def)

text \<open>
  On a chain of well-formed selectors \<open>findElement\<close> returns the first element of the
  first selector that selects anything.
\<close>

lemma findElement_ok:
  "\<forall>s\<in>set sels. selector_ok s \<Longrightarrow> findElement p sels = Inr (first_of (concat (map (nodes p) sels)))"
proof (induction sels)
  case Nil
  show ?case by (simp add: first_of_def)
next
  case (Cons s sels)
  then show ?case
    by (cases "first_of (nodes p s)") (simp_all add: querySelector_ok first_of_append)
qed

lemma findElement_found:
  assumes ok: "\<forall>s\<in>set sels. selector_ok s"
  shows "\<exists>r. findElement p sels = Inr r \<and> (r \<noteq> None \<longleftrightarrow> (\<exists>s\<in>set sels. nodes p s \<noteq> []))"
proof -
  have "first_of (concat (map (nodes p) sels)) \<noteq> None \<longleftrightarrow> (\<exists>s\<in>set sels. nodes p s \<noteq> [])"
    unfolding first_of_None by auto
  with findElement_ok [OF ok, of p] show ?thesis by blast
qed

lemma probes_ok:
  "\<forall>s\<in>set amazon_buyNowButton. selector_ok s"
  "\<forall>s\<in>set netflix_planSelection. selector_ok s"
  "\<forall>s\<in>set netflix_paymentStep. selector_ok s"
  "\<forall>s\<in>set netflix_giftCardSection. selector_ok s"
  "\<forall>s\<in>set dominos_totalPrice. selector_ok s"
  "\<forall>s\<in>set dominos_cartItems. selector_ok s"
  "\<forall>s\<in>set dominos_paymentSection. selector_ok s"
  by (simp_all add: selector_lists selector_ok_def)

section \<open>Detection\<close>

lemma amazon_detection:
  "amazon_isDetected p =
     Inr (some_included (hostname p) amazon_supportedDomains \<and>
          (some_included (pathname p) amazon_checkoutPaths \<or> (\<exists>s\<in>set amazon_buyNowButton. nodes p s \<noteq> [])))"
  using findElement_found [OF probes_ok(1), of p]
  by (auto simp: amazon_isDetected_def Let_def)

lemma netflix_detection:
  "netflix_isDetected p =
     Inr (some_included (hostname p) netflix_supportedDomains \<and>
          (some_included (pathname p) netflix_relevantPaths
           \<or> (\<exists>s\<in>set (netflix_planSelection @ netflix_paymentStep @ netflix_giftCardSection). nodes p s \<noteq> [])))"
  using findElement_found [OF probes_ok(2), of p] findElement_found [OF probes_ok(3), of p]
    findElement_found [OF probes_ok(4), of p]
  by (auto simp: netflix_isDetected_def Let_def)

lemma dominos_detection:
  "dominos_isDetected p =
     Inr (some_included (hostname p) dominos_supportedDomains \<and>
          (some_included (pathname p) dominos_relevantPaths
           \<or> (\<exists>s\<in>set (dominos_totalPrice @ dominos_cartItems @ dominos_paymentSection). nodes p s \<noteq> [])))"
  using findElement_found [OF probes_ok(5), of p] findElement_found [OF probes_ok(6), of p]
    findElement_found [OF probes_ok(7), of p]
  by (auto simp: dominos_isDetected_def Let_def)

lemma isDetected_total: "\<exists>b. isDetected pl p = Inr b"
  by (cases pl) (simp_all add: amazon_detection netflix_detection dominos_detection)

text \<open>
  The domain test of each \<open>isDetected\<close> is \<open>hostname.includes(domain)\<close>: a host name
  that is one of the platform's domains, or a subdomain of one, passes it.
\<close>

lemma starts_with_append: "starts_with (xs @ ys) xs"
  by (induction xs) simp_all

lemma starts_with_includes: "starts_with s sub \<Longrightarrow> str_includes s sub"
  by (cases s; cases sub) simp_all

lemma str_includes_append: "str_includes (pre @ sub @ post) sub"
proof (induction pre)
  case Nil
  show ?case by (simp add: starts_with_includes starts_with_append)
next
  case (Cons c pre)
  then show ?case by simp
qed

lemma starts_with_prefix: "starts_with s pre \<Longrightarrow> \<exists>post. s = pre @ post"
  by (induction s pre rule: starts_with.induct) simp_all

lemma ends_with_suffix: "ends_with s suffix \<Longrightarrow> \<exists>pre. s = pre @ suffix"
proof -
  assume "ends_with s suffix"
  then obtain post where "rev s = rev suffix @ post"
    using starts_with_prefix by (auto simp: ends_with_def)
  then have "s = rev post @ suffix"
    by (simp add: rev_swap)
  then show ?thesis ..
qed

lemma host_listed_included:
  assumes "host_listed host pl"
  shows "some_included host (supportedDomains pl)"
proof -
  from assms obtain d where d: "d \<in> set (supportedDomains pl)"
    and h: "host = ustr d \<or> ends_with host (ustr (''.'' @ d))"
    by (auto simp: host_listed_def list_ex_iff)
  from h have "str_includes host (ustr d)"
  proof
    assume "host = ustr d"
    with str_includes_append [of "[]" "ustr d" "[]"] show ?thesis by simp
  next
    assume "ends_with host (ustr (''.'' @ d))"
    then obtain pre where "host = pre @ ustr (''.'' @ d)"
      using ends_with_suffix by blast
    then have "host = (pre @ ustr ''.'') @ ustr d @ []"
      by (simp add: ustr_def)
    then show ?thesis
      using str_includes_append [of "pre @ ustr ''.''" "ustr d" "[]"] by simp
  qed
  with d show ?thesis
    by (auto simp: some_included_def list_ex_iff)
qed

text \<open>
  C6, as the code has it, on the hosts of the allow-list.  On a host name that is one
  of the profile's domains or a subdomain of one, \<open>isDetected\<close> is true exactly when the
  path contains one of the profile's path fragments or a selector of a chain that the
  profile probes resolves: the buy-now button for Amazon; plan selection, payment
  step and gift-card section for Netflix; total price, cart items and payment section
  for Domino's.  On a host name that contains none of the profile's domains it is
  false, whatever the page holds.  Nothing is stated here for a host name that
  contains a domain of the profile without being that domain or a subdomain of it.
\<close>

theorem isDetected_on_listed_hosts:
  "(host_listed (hostname p) pl \<longrightarrow>
      isDetected pl p =
        Inr (some_included (pathname p) (relevantPaths pl) \<or> (\<exists>s\<in>set (probed_chains pl). nodes p s \<noteq> [])))
   \<and> (\<not> some_included (hostname p) (supportedDomains pl) \<longrightarrow> isDetected pl p = Inr False)"
proof -
  have "some_included (hostname p) (supportedDomains pl)" if "host_listed (hostname p) pl"
    using that by (rule host_listed_included)
  then show ?thesis
    by (cases pl) (auto simp: amazon_detection netflix_detection dominos_detection)
qed

lemma amazon_cart_page_listed: "host_listed (hostname amazon_cart_page) Amazon"
  by (simp add: host_listed_def ends_with_def amazon_cart_page_def amazon_supportedDomains_def ustr_def)

theorem isDetected_on_listed_hosts_witness:
  "isDetected Amazon amazon_cart_page = Inr True \<and> isDetected Netflix amazon_cart_page = Inr False"
proof -
  have a: "some_included (pathname amazon_cart_page) (relevantPaths Amazon)"
    by (simp add: amazon_cart_page_def detection_defs ustr_def)
  have n: "\<not> some_included (hostname amazon_cart_page) (supportedDomains Netflix)"
    by (simp add: amazon_cart_page_def detection_defs ustr_def)
  from isDetected_on_listed_hosts [of amazon_cart_page Amazon] amazon_cart_page_listed a
  have "isDetected Amazon amazon_cart_page = Inr True" by simp
  moreover from isDetected_on_listed_hosts [of amazon_cart_page Netflix] n
  have "isDetected Netflix amazon_cart_page = Inr False" by blast
  ultimately show ?thesis by simp
qed

text \<open>
  The comment on the domain test reads ``Check if we're on a supported Amazon
  domain'', and the test is one of containment: the page \<open>amazon_look_alike\<close>, whose
  host is neither a domain of Amazon nor a subdomain of one, passes it and is detected
  as Amazon by its path.
\<close>

lemma look_alike_host_detected:
  "\<not> host_listed (hostname amazon_look_alike) Amazon
   \<and> isDetected Amazon amazon_look_alike = Inr True"
  by (simp add: host_listed_def ends_with_def amazon_look_alike_def detection_defs ustr_def
      amazon_detection)

text \<open>
  C6, as stated, fails: a marker from the profile's selector chains does not suffice.
  On Amazon's gift-card page the gift-card input, first selector of the chain
  \<open>giftCardInput\<close>, is present and the host is Amazon's, yet \<open>isDetected\<close> is false:
  Amazon probes the buy-now button only.
\<close>

theorem isDetected_unprobed_marker:
  "some_included (hostname amazon_redeem_page) (supportedDomains Amazon)
   \<and> ''#gc-redemption-input'' \<in> set (checkout_chains Amazon)
   \<and> nodes amazon_redeem_page ''#gc-redemption-input'' \<noteq> []
   \<and> isDetected Amazon amazon_redeem_page = Inr False"
  by (simp add: amazon_redeem_page_def detection_defs ustr_def selector_lists amazon_detection)

lemma detect_loop_find:
  "detect_loop pls p = Inr (List.find (\<lambda>pl. isDetected pl p = Inr True) pls)"
proof (induction pls)
  case Nil
  show ?case by simp
next
  case (Cons pl pls)
  obtain b where b: "isDetected pl p = Inr b"
    using isDetected_total [of pl p] by blast
  show ?case
    by (cases b) (simp_all add: b Cons.IH)
qed

text \<open>
  C7.  Detection goes through the registry in the order Amazon, Netflix, Domino's
  and returns the first platform whose \<open>isDetected\<close> is true, or nothing when there is
  none; the result is a single platform at most.
\<close>

theorem detectCurrentPlatform_first_match:
  "PLATFORM_LIST = [Amazon, Netflix, Dominos]
   \<and> detectCurrentPlatform p = Inr (List.find (\<lambda>pl. isDetected pl p = Inr True) PLATFORM_LIST)"
  by (simp add: detectCurrentPlatform_def detect_loop_find) (simp add: PLATFORM_LIST_def)

section \<open>Checkout snapshots\<close>





lemmas extraction_defs =
  querySelector_def querySelectorAll_def el_querySelector_def el_querySelectorAll_def first_of_def
  selector_ok_def amazon_extractTotalPrice_def amazon_extractItems_def amazon_getCheckoutInfo_def
  dominos_extractTotalPrice_def dominos_extractOrderItems_def dominos_getCheckoutInfo_def
  dominos_placeholder_def
  netflix_extractPlanPrice_def netflix_extractSelectedPlan_def netflix_getCheckoutInfo_def
  netflix_subscription_def

lemma dominos_total_only_price:
  "dominos_extractTotalPrice dominos_total_only = Inr (Some \<lparr>amount = 25.99, currency = ustr ''USD''\<rparr>)"
  by (simp add: dominos_total_only_def extraction_defs selector_lists string_defs rx_defs parser_defs)



subsection \<open>Items\<close>

lemma amazon_total_only_items: "amazon_extractItems amazon_total_only = Inr []"
  by (simp add: amazon_total_only_def extraction_defs selector_lists)

lemma amazon_total_only_price:
  "amazon_extractTotalPrice amazon_total_only = Inr (Some \<lparr>amount = 25.99, currency = ustr ''USD''\<rparr>)"
  by (simp add: amazon_total_only_def extraction_defs selector_lists string_defs rx_defs parser_defs)

text \<open>
  C5.  Every successful extraction is to carry at least one item, a placeholder
  standing in when no item container is found.  Amazon's \<open>extractItems\<close> has no
  placeholder: on a checkout page where only the total has rendered the snapshot
  carries an empty list of items.
\<close>

theorem amazon_snapshot_without_items:
  "getCheckoutInfo Amazon amazon_total_only =
     Some \<lparr>platform_name = ustr ''amazon'', totalAmount = 25.99, currency_code = ustr ''USD'',
           items = [], checkoutUrl = ustr ''https://www.amazon.com/gp/buy/spc/handlers/display.html'',
           timestamp = 1700000000000\<rparr>"
  by (simp add: amazon_getCheckoutInfo_def amazon_total_only_items amazon_total_only_price)
     (simp add: amazon_total_only_def)

text \<open>
  The bounds of the three extractions: at most 5 items for Amazon, between 1 and 10
  for Domino's, whose placeholder fills an empty list, and exactly one for Netflix.
\<close>

lemma amazon_items_bound: "amazon_extractItems p = Inr its \<Longrightarrow> length its \<le> 5"
  by (auto simp: amazon_extractItems_def split: sum.splits)

lemma dominos_items_bound:
  "dominos_extractOrderItems p = Inr its \<Longrightarrow> 1 \<le> length its \<and> length its \<le> 10"
  by (auto simp: dominos_extractOrderItems_def Suc_le_eq split: sum.splits if_splits)

lemma netflix_items_single: "netflix_extractSelectedPlan p = Inr its \<Longrightarrow> length its = 1"
  by (auto simp: netflix_extractSelectedPlan_def Let_def split: sum.splits option.splits)

section \<open>The content script\<close>

text \<open>What the script's steps leave alone, and when they queue a record for the observer.\<close>

lemma appended_keeps:
  "observer (appended n w) = observer w"
  "detectionTimeout (appended n w) = detectionTimeout w"
  "rescans (appended n w) = rescans w"
  "doc (appended n w) = doc w"
  "attempts (appended n w) = attempts w"
  "payButton (appended n w) = payButton w"
  "currentPlatform (appended n w) = currentPlatform w"
  "mounted (appended n w) = mounted w"
  "input_value (appended n w) = input_value w"
  by (simp_all add: appended_def)

lemma appended_records:
  "records (appended n w) =
     (if observer w then records w @ [\<lparr>mutation_type = childList, addedNodes = [n]\<rparr>] else records w)"
  by (simp add: appended_def)

lemma injectPayButton_keeps:
  "observer (injectPayButton w) = observer w"
  "detectionTimeout (injectPayButton w) = detectionTimeout w"
  "rescans (injectPayButton w) = rescans w"
  "doc (injectPayButton w) = doc w"
  "attempts (injectPayButton w) = attempts w"
  "input_value (injectPayButton w) = input_value w"
  by (simp_all add: injectPayButton_def appended_keeps split: option.splits sum.splits)

lemma setupPlatformIntegration_keeps:
  "observer (setupPlatformIntegration w) = observer w"
  "detectionTimeout (setupPlatformIntegration w) = detectionTimeout w"
  "rescans (setupPlatformIntegration w) = rescans w"
  "doc (setupPlatformIntegration w) = doc w"
  "attempts (setupPlatformIntegration w) = attempts w"
  "input_value (setupPlatformIntegration w) = input_value w"
  by (simp_all add: setupPlatformIntegration_def injectPayButton_keeps split: option.splits)

lemma detectAndSetupPlatform_keeps:
  "observer (detectAndSetupPlatform w) = observer w"
  "detectionTimeout (detectAndSetupPlatform w) = detectionTimeout w"
  "rescans (detectAndSetupPlatform w) = rescans w"
  "doc (detectAndSetupPlatform w) = doc w"
  "attempts (detectAndSetupPlatform w) = attempts w"
  "input_value (detectAndSetupPlatform w) = input_value w"
  by (simp_all add: detectAndSetupPlatform_def setupPlatformIntegration_keeps split: option.splits sum.splits)

lemma retryPlatformDetection_keeps:
  "observer (retryPlatformDetection w) = observer w"
  "detectionTimeout (retryPlatformDetection w) = detectionTimeout w"
  "rescans (retryPlatformDetection w) = rescans w"
  "doc (retryPlatformDetection w) = doc w"
  "attempts (retryPlatformDetection w) = attempts w"
  "input_value (retryPlatformDetection w) = input_value w"
  by (simp_all add: retryPlatformDetection_def detectAndSetupPlatform_keeps)

text \<open>
  A step of detection and injection queues a record exactly when it mounts the
  button; the platform is detected then.
\<close>

lemma injectPayButton_inserted: "inserted w (injectPayButton w)"
  by (simp add: inserted_def injectPayButton_def appended_def split: option.splits sum.splits)

lemma inserted_cong:
  "inserted v (f v) \<Longrightarrow> records v = records w \<Longrightarrow> observer v = observer w
     \<Longrightarrow> payButton v = payButton w \<Longrightarrow> inserted w (f v)"
  by (simp add: inserted_def)

lemma setupPlatformIntegration_inserted: "inserted w (setupPlatformIntegration w)"
proof (cases "currentPlatform w")
  case None
  then show ?thesis by (simp add: setupPlatformIntegration_def inserted_def)
next
  case (Some pl)
  show ?thesis
  proof (cases "getCheckoutInfo pl (doc w)")
    case None
    with Some show ?thesis
      by (simp add: setupPlatformIntegration_def injectPayButton_inserted)
  next
    case (Some info)
    with \<open>currentPlatform w = Some pl\<close> show ?thesis
      using inserted_cong [OF injectPayButton_inserted,
          where v = "w\<lparr>sent := sent w @ [CHECKOUT_INFO_DETECTED pl info]\<rparr>" and w = w]
      by (simp add: setupPlatformIntegration_def)
  qed
qed

lemma detectAndSetupPlatform_inserted: "inserted w (detectAndSetupPlatform w)"
proof (cases "detectCurrentPlatform (doc w)")
  case (Inl e)
  then show ?thesis by (simp add: detectAndSetupPlatform_def inserted_def)
next
  case (Inr r)
  show ?thesis
  proof (cases r)
    case None
    with Inr show ?thesis by (simp add: detectAndSetupPlatform_def inserted_def)
  next
    case (Some pl)
    with Inr show ?thesis
      using inserted_cong [OF setupPlatformIntegration_inserted,
          where v = "w\<lparr>currentPlatform := Some pl\<rparr>" and w = w]
      by (simp add: detectAndSetupPlatform_def)
  qed
qed

lemma retryPlatformDetection_inserted: "inserted w (retryPlatformDetection w)"
  by (simp add: retryPlatformDetection_def detectAndSetupPlatform_inserted)
    (simp add: inserted_def)

subsection \<open>Turns and the passing of time\<close>

lemma run_append: "run (xs @ ys) w = run ys (run xs w)"
  by (induction xs arbitrary: w) simp_all

lemma deliver_idle: "records w = [] \<Longrightarrow> deliver w = w"
  by (simp add: deliver_def)

lemma deliver_keeps:
  "observer (deliver w) = observer w"
  "rescans (deliver w) = rescans w"
  "doc (deliver w) = doc w"
  "payButton (deliver w) = payButton w"
  "currentPlatform (deliver w) = currentPlatform w"
  "mounted (deliver w) = mounted w"
  "attempts (deliver w) = attempts w"
  "records (deliver w) = []"
  by (simp_all add: deliver_def on_mutations_def)

lemma at_time_keeps:
  "observer (at_time t w) = observer w"
  "detectionTimeout (at_time t w) = detectionTimeout w"
  "rescans (at_time t w) = rescans w"
  "records (at_time t w) = records w"
  "payButton (at_time t w) = payButton w"
  "currentPlatform (at_time t w) = currentPlatform w"
  "mounted (at_time t w) = mounted w"
  "attempts (at_time t w) = attempts w"
  "clock (doc (at_time t w)) = t"
  by (simp_all add: at_time_def)

text \<open>No timer falls due within \<open>d\<close> ms: only the clock moves.\<close>

lemma elapse_idle:
  assumes "detectionTimeout w = None \<or> (\<exists>t. detectionTimeout w = Some t \<and> clock (doc w) + d < t)"
  shows "elapse d w = at_time (clock (doc w) + d) w"
  using assms by (subst elapse.simps) (auto simp: fire_if_due_def Let_def)

text \<open>The timer falls due later within the \<open>d\<close> ms: the clock moves on to that time.\<close>

lemma elapse_advance:
  assumes "detectionTimeout w = Some t" and "clock (doc w) < t" and "t \<le> clock (doc w) + d"
  shows "elapse d w = elapse (clock (doc w) + d - t) (at_time t w)"
  using assms by (subst elapse.simps) (simp add: fire_if_due_def Let_def)

text \<open>The timer is due now: its callback runs, and time goes on from the state it leaves.\<close>

lemma elapse_due:
  assumes "detectionTimeout w = Some t" and "t \<le> clock (doc w)"
    and "\<forall>t'. detectionTimeout (timer_callback w) = Some t' \<longrightarrow> clock (doc (timer_callback w)) < t'"
  shows "elapse d w = elapse d (timer_callback w)"
proof -
  have a: "fire_if_due w = timer_callback w"
    using assms(1,2) by (simp add: fire_if_due_def)
  have b: "fire_if_due (timer_callback w) = timer_callback w"
    using assms(3) by (auto simp: fire_if_due_def split: option.splits)
  show ?thesis
    by (subst elapse.simps, subst (2) elapse.simps) (simp add: a b)
qed

text \<open>
  The callback of the timer on a state in which the observer has nothing queued:
  one re-scan; the timer is set again, 1000 ms ahead, exactly when the observer is
  connected and the re-scan has mounted the button.
\<close>

lemma timer_callback_state:
  assumes "records w = []"
  shows "rescans (timer_callback w) = rescans w + 1"
    and "records (timer_callback w) = []"
    and "observer (timer_callback w) = observer w"
    and "doc (timer_callback w) = doc w"
    and "payButton (timer_callback w)
           = payButton (retryPlatformDetection (w\<lparr>detectionTimeout := None, rescans := rescans w + 1\<rparr>))"
    and "detectionTimeout (timer_callback w) =
           (if observer w \<and> payButton (timer_callback w) \<noteq> payButton w
            then Some (clock (doc w) + 1000) else None)"
    and "payButton (timer_callback w) \<noteq> payButton w \<longrightarrow>
           currentPlatform (timer_callback w) \<noteq> None \<and> payButton (timer_callback w) \<noteq> None"
proof -
  let ?v = "w\<lparr>detectionTimeout := None, rescans := rescans w + 1\<rparr>"
  let ?r = "retryPlatformDetection ?v"
  have ins: "inserted ?v ?r" by (rule retryPlatformDetection_inserted)
  have keep: "observer ?r = observer w" "detectionTimeout ?r = None" "rescans ?r = rescans w + 1"
    "doc ?r = doc w"
    by (simp_all add: retryPlatformDetection_keeps)
  show "rescans (timer_callback w) = rescans w + 1"
    using keep by (simp add: timer_callback_def deliver_def on_mutations_def)
  show "records (timer_callback w) = []"
    by (simp add: timer_callback_def deliver_def on_mutations_def)
  show "observer (timer_callback w) = observer w"
    using keep by (simp add: timer_callback_def deliver_def on_mutations_def)
  show "doc (timer_callback w) = doc w"
    using keep by (simp add: timer_callback_def deliver_def on_mutations_def)
  show pb: "payButton (timer_callback w) = payButton ?r"
    by (simp add: timer_callback_def deliver_def on_mutations_def)
  show "detectionTimeout (timer_callback w) =
           (if observer w \<and> payButton (timer_callback w) \<noteq> payButton w
            then Some (clock (doc w) + 1000) else None)"
    using ins keep assms
    by (simp add: timer_callback_def deliver_def on_mutations_def inserted_def shouldCheck_def)
  show "payButton (timer_callback w) \<noteq> payButton w \<longrightarrow>
           currentPlatform (timer_callback w) \<noteq> None \<and> payButton (timer_callback w) \<noteq> None"
    using ins by (simp add: timer_callback_def deliver_def on_mutations_def inserted_def)
qed

text \<open>With the platform detected and the button mounted the callback only spends the timer.\<close>

lemma timer_callback_settled:
  assumes "records w = []" and "currentPlatform w \<noteq> None" and "payButton w \<noteq> None"
  shows "timer_callback w = w\<lparr>detectionTimeout := None, rescans := rescans w + 1\<rparr>"
  using assms by (simp add: timer_callback_def retryPlatformDetection_def deliver_def)


subsection \<open>Debounce\<close>

text \<open>A batch of the page's mutations that adds an element sets the timer.\<close>

lemma signal_arms:
  assumes "observer w" and "shouldCheck ms"
  shows "armed (fire (Mutations ms) w)"
    and "rescans (fire (Mutations ms) w) = rescans w"
    and "payButton (fire (Mutations ms) w) = payButton w"
  using assms by (simp_all add: fire_def deliver_def on_mutations_def armed_def)

text \<open>Less than 1000 ms after the timer was set only the clock moves.\<close>

lemma short_gap_keeps:
  assumes "armed w" and "gap < 1000"
  shows "observer (fire (Elapse gap) w)"
    and "rescans (fire (Elapse gap) w) = rescans w"
    and "payButton (fire (Elapse gap) w) = payButton w"
proof -
  from assms have "elapse gap w = at_time (clock (doc w) + gap) w"
    by (intro elapse_idle) (simp add: armed_def)
  with assms show "observer (fire (Elapse gap) w)"
    and "rescans (fire (Elapse gap) w) = rescans w"
    and "payButton (fire (Elapse gap) w) = payButton w"
    by (simp_all add: fire_def deliver_def at_time_keeps armed_def)
qed

lemma burst_rest:
  "armed w \<Longrightarrow> \<forall>(gap, ms)\<in>set rest. gap < 1000 \<and> shouldCheck ms \<Longrightarrow>
     armed (run (concat (map (\<lambda>(gap, ms). [Elapse gap, Mutations ms]) rest)) w)
     \<and> rescans (run (concat (map (\<lambda>(gap, ms). [Elapse gap, Mutations ms]) rest)) w) = rescans w
     \<and> payButton (run (concat (map (\<lambda>(gap, ms). [Elapse gap, Mutations ms]) rest)) w) = payButton w"
proof (induction rest arbitrary: w)
  case Nil
  then show ?case by simp
next
  case (Cons a rest)
  obtain gap ms where a: "a = (gap, ms)" by (cases a)
  from Cons.prems a have gap: "gap < 1000" and ms: "shouldCheck ms"
    and rest: "\<forall>(gap, ms)\<in>set rest. gap < 1000 \<and> shouldCheck ms"
    by auto
  let ?w0 = "fire (Elapse gap) w"
  let ?w1 = "fire (Mutations ms) ?w0"
  note g = short_gap_keeps [OF Cons.prems(1) gap]
  note m = signal_arms [OF g(1) ms]
  from m g have w1: "armed ?w1" and r1: "rescans ?w1 = rescans w" and p1: "payButton ?w1 = payButton w"
    by simp_all
  from Cons.IH [OF w1 rest] r1 p1 show ?case
    by (simp add: a)
qed

lemma burst_keeps:
  assumes "observer w" and "shouldCheck first"
    and "\<forall>(gap, ms)\<in>set rest. gap < 1000 \<and> shouldCheck ms"
  shows "armed (run (burst_events first rest) w)"
    and "rescans (run (burst_events first rest) w) = rescans w"
    and "payButton (run (burst_events first rest) w) = payButton w"
proof -
  note m = signal_arms [OF assms(1,2)]
  from burst_rest [OF m(1) assms(3)] m(2,3)
  show "armed (run (burst_events first rest) w)"
    and "rescans (run (burst_events first rest) w) = rescans w"
    and "payButton (run (burst_events first rest) w) = payButton w"
    by simp_all
qed

text \<open>
  What follows once the timer is set and 1000 ms or more pass.  The callback runs
  after 1000 ms.  If its re-scan mounts the button the observer reports the insertion
  and the timer is set once more, so that the callback runs a second time after
  2000 ms, and then finds the platform detected and the button mounted.
\<close>

lemma armed_elapse:
  assumes "armed w" and "1000 \<le> d"
  shows "payButton (elapse d w) = payButton (timer_callback (at_time (clock (doc w) + 1000) w))"
    and "rescans (elapse d w)
           = rescans w + (if payButton (elapse d w) \<noteq> payButton w \<and> 2000 \<le> d then 2 else 1)"
    and "detectionTimeout (elapse d w)
           = (if payButton (elapse d w) \<noteq> payButton w \<and> d < 2000
              then Some (clock (doc w) + 2000) else None)"
    and "records (elapse d w) = []"
proof -
  let ?T = "clock (doc w) + 1000"
  let ?wf = "at_time ?T w"
  let ?c = "timer_callback ?wf"
  from assms(1) have obs: "observer w" and rec: "records w = []"
    and tm: "detectionTimeout w = Some ?T"
    by (simp_all add: armed_def)
  have wf: "records ?wf = []" "detectionTimeout ?wf = Some ?T" "clock (doc ?wf) = ?T"
    "observer ?wf" "payButton ?wf = payButton w" "rescans ?wf = rescans w"
    using obs rec tm by (simp_all add: at_time_keeps)
  note cs = timer_callback_state [OF wf(1)]
  have c: "rescans ?c = rescans w + 1" "records ?c = []" "clock (doc ?c) = ?T"
    "detectionTimeout ?c = (if payButton ?c \<noteq> payButton w then Some (?T + 1000) else None)"
    using cs wf by simp_all
  have s1: "elapse d w = elapse (d - 1000) ?wf"
    using elapse_advance [OF tm, of d] assms(2) by simp
  have s2: "elapse (d - 1000) ?wf = elapse (d - 1000) ?c"
    by (rule elapse_due [OF wf(2)]) (simp_all add: wf c)
  have e: "elapse d w = elapse (d - 1000) ?c"
    using s1 s2 by simp
  consider (same) "payButton ?c = payButton w"
    | (soon) "payButton ?c \<noteq> payButton w" "d < 2000"
    | (later) "payButton ?c \<noteq> payButton w" "2000 \<le> d"
    by linarith
  then have "payButton (elapse d w) = payButton ?c
      \<and> rescans (elapse d w)
           = rescans w + (if payButton (elapse d w) \<noteq> payButton w \<and> 2000 \<le> d then 2 else 1)
      \<and> detectionTimeout (elapse d w)
           = (if payButton (elapse d w) \<noteq> payButton w \<and> d < 2000
              then Some (clock (doc w) + 2000) else None)
      \<and> records (elapse d w) = []"
  proof cases
    case same
    with c have "detectionTimeout ?c = None" by simp
    then have "elapse (d - 1000) ?c = at_time (clock (doc ?c) + (d - 1000)) ?c"
      by (intro elapse_idle) simp
    with e same c show ?thesis
      by (simp add: at_time_keeps)
  next
    case soon
    with c have t: "detectionTimeout ?c = Some (?T + 1000)" by simp
    have "elapse (d - 1000) ?c = at_time (clock (doc ?c) + (d - 1000)) ?c"
      using t soon(2) c(3) by (intro elapse_idle) simp
    with e soon c t show ?thesis
      by (simp add: at_time_keeps)
  next
    case later
    with c have t: "detectionTimeout ?c = Some (?T + 1000)" by simp
    let ?c2 = "at_time (?T + 1000) ?c"
    let ?c3 = "?c2\<lparr>detectionTimeout := None, rescans := rescans ?c2 + 1\<rparr>"
    have a1: "elapse (d - 1000) ?c = elapse (d - 2000) ?c2"
      using elapse_advance [OF t, of "d - 1000"] later(2) c(3) by simp
    have set: "currentPlatform ?c \<noteq> None" "payButton ?c \<noteq> None"
      using cs(7) later(1) wf(5) by simp_all
    have c2: "records ?c2 = []" "currentPlatform ?c2 \<noteq> None" "payButton ?c2 \<noteq> None"
      "detectionTimeout ?c2 = Some (?T + 1000)" "clock (doc ?c2) = ?T + 1000"
      using c set t by (simp_all add: at_time_keeps)
    have cb: "timer_callback ?c2 = ?c3"
      by (rule timer_callback_settled [OF c2(1,2,3)])
    have due: "?T + 1000 \<le> clock (doc ?c2)"
      by (simp only: c2(5) order_refl)
    have nxt: "\<forall>t'. detectionTimeout (timer_callback ?c2) = Some t'
                 \<longrightarrow> clock (doc (timer_callback ?c2)) < t'"
      unfolding cb by simp
    have "elapse (d - 2000) ?c2 = elapse (d - 2000) (timer_callback ?c2)"
      by (rule elapse_due [OF c2(4) due nxt])
    then have a2: "elapse (d - 2000) ?c2 = elapse (d - 2000) ?c3"
      by (simp only: cb)
    have a3: "elapse (d - 2000) ?c3 = at_time (clock (doc ?c3) + (d - 2000)) ?c3"
      by (intro elapse_idle) simp
    from e a1 a2 a3 have "elapse d w = at_time (clock (doc ?c3) + (d - 2000)) ?c3"
      by simp
    with later c show ?thesis
      by (simp add: at_time_keeps)
  qed
  then show "payButton (elapse d w) = payButton (timer_callback (at_time (clock (doc w) + 1000) w))"
    and "rescans (elapse d w)
           = rescans w + (if payButton (elapse d w) \<noteq> payButton w \<and> 2000 \<le> d then 2 else 1)"
    and "detectionTimeout (elapse d w)
           = (if payButton (elapse d w) \<noteq> payButton w \<and> d < 2000
              then Some (clock (doc w) + 2000) else None)"
    and "records (elapse d w) = []"
    by simp_all
qed

text \<open>
  C8, as the code has it.  A burst of \<open>N \<ge> 1\<close> batches of mutations that each add an
  element, every batch less than 1000 ms after the one before, runs no re-scan while
  it lasts, and one call of \<open>retryPlatformDetection\<close> when 1000 ms have passed after
  the last batch.  The observer watches the subtree of \<open>document.body\<close>, the script's
  own insertions included: if that re-scan mounts the button, the timer is set again
  and \<open>retryPlatformDetection\<close> is called a second time, 2000 ms after the last batch;
  this call returns at once.  Otherwise no timer is left pending.  \<open>d\<close> is the time
  that has passed since the last batch.
\<close>

theorem debounce_rescans:
  assumes "observer w" and "shouldCheck first"
    and "\<forall>(gap, ms)\<in>set rest. gap < 1000 \<and> shouldCheck ms" and "1000 \<le> d"
  shows "rescans (run (burst_events first rest) w) = rescans w
     \<and> rescans (run (burst_events first rest @ [Elapse d]) w)
         = rescans w + (if payButton (run (burst_events first rest @ [Elapse d]) w) \<noteq> payButton w
                           \<and> 2000 \<le> d then 2 else 1)
     \<and> detectionTimeout (run (burst_events first rest @ [Elapse d]) w)
         = (if payButton (run (burst_events first rest @ [Elapse d]) w) \<noteq> payButton w \<and> d < 2000
            then Some (clock (doc (run (burst_events first rest) w)) + 2000) else None)"
proof -
  let ?wb = "run (burst_events first rest) w"
  note b = burst_keeps [OF assms(1,2,3)]
  note e = armed_elapse [OF b(1) assms(4)]
  have r: "run (burst_events first rest @ [Elapse d]) w = elapse d ?wb"
    using e(4) by (simp add: run_append fire_def deliver_def del: burst_events.simps)
  from b e show ?thesis
    unfolding r by simp
qed

lemma initialize_observer: "isSupportedDomain (hostname p) \<Longrightarrow> observer (initialize p)"
  by (simp add: initialize_def)

lemma initialize_rescans: "rescans (initialize p) = 0"
  by (simp add: initialize_def blank_def detectAndSetupPlatform_keeps)

lemma initialize_records: "records (initialize p) = []"
  using detectAndSetupPlatform_inserted [of "blank p"]
  by (simp add: initialize_def inserted_def) (simp add: blank_def)

lemma dominos_checkout_supported: "isSupportedDomain (hostname dominos_checkout)"
  by (simp add: isSupportedDomain_def PLATFORM_LIST_def dominos_checkout_def detection_defs ustr_def)

lemma element_added_signal: "shouldCheck element_added"
  by (simp add: shouldCheck_def element_added_def)

theorem debounce_rescans_witness:
  "rescans (run (burst_events element_added [(300, element_added), (999, element_added)] @ [Elapse 1500])
      (initialize dominos_checkout)) = 1"
proof -
  have "\<forall>(gap, ms)\<in>set [(300, element_added), (999::nat, element_added)]. gap < 1000 \<and> shouldCheck ms"
    using element_added_signal by simp
  from debounce_rescans [OF initialize_observer [OF dominos_checkout_supported] element_added_signal
      this, of 1500]
  show ?thesis
    by (simp add: initialize_rescans)
qed

subsection \<open>Injection\<close>

lemma injectPayButton_idem: "injectPayButton (injectPayButton w) = injectPayButton w"
  by (simp add: injectPayButton_def appended_def split: option.splits sum.splits)

text \<open>
  C9.  Injecting twice is the same as injecting once; on a page where a platform is
  detected, an injection point resolves and nothing is mounted yet, two injections
  leave exactly one button mounted, the one the script holds; and a re-scan changes
  nothing when a platform is detected and the button is mounted.
\<close>

theorem injection_idempotent:
  "injectPayButton (injectPayButton w) = injectPayButton w
   \<and> (\<forall>pl ip. currentPlatform w = Some pl \<and> payButton w = None \<and> mounted w = []
         \<and> getButtonInjectionPoint pl (doc w) = Inr (Some ip)
        \<longrightarrow> mounted (injectPayButton (injectPayButton w)) = [(ip, createPayButton pl)]
            \<and> payButton (injectPayButton (injectPayButton w)) = Some (createPayButton pl))
   \<and> (currentPlatform w \<noteq> None \<and> payButton w \<noteq> None \<longrightarrow> retryPlatformDetection w = w)"
proof -
  have a: "injectPayButton (injectPayButton w) = injectPayButton w"
    by (rule injectPayButton_idem)
  have b: "\<forall>pl ip. currentPlatform w = Some pl \<and> payButton w = None \<and> mounted w = []
         \<and> getButtonInjectionPoint pl (doc w) = Inr (Some ip)
        \<longrightarrow> mounted (injectPayButton w) = [(ip, createPayButton pl)]
            \<and> payButton (injectPayButton w) = Some (createPayButton pl)"
    by (simp add: injectPayButton_def appended_def)
  have c: "currentPlatform w \<noteq> None \<and> payButton w \<noteq> None \<longrightarrow> retryPlatformDetection w = w"
    by (simp add: retryPlatformDetection_def)
  from a b c show ?thesis by simp
qed

lemma dominos_checkout_injection_point:
  "getButtonInjectionPoint Dominos dominos_checkout = Inr (Some (Element [] [] []))"
  by (simp add: getButtonInjectionPoint_def dominos_injectionSelectors_def dominos_checkout_def
      querySelector_def querySelectorAll_def selector_ok_def first_of_def)

theorem injection_idempotent_witness:
  "mounted (injectPayButton (injectPayButton detected_dominos))
     = [(Element [] [] [], ''paymint-dominos-button'')]
   \<and> retryPlatformDetection (injectPayButton detected_dominos) = injectPayButton detected_dominos"
proof -
  have pre: "currentPlatform detected_dominos = Some Dominos \<and> payButton detected_dominos = None
      \<and> mounted detected_dominos = []
      \<and> getButtonInjectionPoint Dominos (doc detected_dominos) = Inr (Some (Element [] [] []))"
    by (simp add: detected_dominos_def blank_def dominos_checkout_injection_point)
  with injection_idempotent [of detected_dominos]
  have m: "mounted (injectPayButton (injectPayButton detected_dominos))
     = [(Element [] [] [], ''paymint-dominos-button'')]"
    and pb: "payButton (injectPayButton (injectPayButton detected_dominos)) = Some ''paymint-dominos-button''"
    by auto
  have cp: "currentPlatform (injectPayButton detected_dominos) \<noteq> None"
    by (simp add: injectPayButton_def appended_def detected_dominos_def blank_def
        split: option.splits sum.splits)
  from pb injection_idempotent [of detected_dominos]
  have "payButton (injectPayButton detected_dominos) \<noteq> None" by simp
  with cp injection_idempotent [of "injectPayButton detected_dominos"]
  have "retryPlatformDetection (injectPayButton detected_dominos) = injectPayButton detected_dominos"
    by blast
  with m show ?thesis by simp
qed

subsection \<open>The script's own insertions\<close>

lemma dominos_checkout_detect: "detectCurrentPlatform dominos_checkout = Inr (Some Dominos)"
  by (simp add: detectCurrentPlatform_def PLATFORM_LIST_def amazon_detection netflix_detection
      dominos_detection dominos_checkout_def detection_defs ustr_def)

lemma dominos_checkout_price:
  "dominos_extractTotalPrice dominos_checkout = Inr (Some \<lparr>amount = 25.99, currency = ustr ''USD''\<rparr>)"
  by (simp add: dominos_checkout_def extraction_defs selector_lists string_defs rx_defs parser_defs)

lemma dominos_checkout_items:
  "dominos_extractOrderItems dominos_checkout = Inr [dominos_placeholder]"
  by (simp add: dominos_checkout_def dominos_extractOrderItems_def querySelectorAll_def selector_ok_def selector_lists)

lemma dominos_checkout_info: "getCheckoutInfo Dominos dominos_checkout \<noteq> None"
  by (simp add: dominos_getCheckoutInfo_def dominos_checkout_price dominos_checkout_items)

lemma initialize_dominos_checkout:
  "currentPlatform (initialize dominos_checkout) = Some Dominos"
  "payButton (initialize dominos_checkout) = Some ''paymint-dominos-button''"
  "mounted (initialize dominos_checkout) = [(Element [] [] [], ''paymint-dominos-button'')]"
  "observer (initialize dominos_checkout) = True"
  "detectionTimeout (initialize dominos_checkout) = None"
  "rescans (initialize dominos_checkout) = 0"
  "doc (initialize dominos_checkout) = dominos_checkout"
  using dominos_checkout_info
  by (auto simp: initialize_def dominos_checkout_supported blank_def detectAndSetupPlatform_def
      dominos_checkout_detect setupPlatformIntegration_def injectPayButton_def appended_def
      dominos_checkout_injection_point)

lemma findElement_clock: "findElement (p\<lparr>clock := t\<rparr>) sels = findElement p sels"
  by (induction sels) (simp_all add: querySelector_def querySelectorAll_def split: option.splits)

lemma detect_clock: "detectCurrentPlatform (p\<lparr>clock := t\<rparr>) = detectCurrentPlatform p"
  by (simp add: detectCurrentPlatform_def detect_loop_find amazon_detection netflix_detection
      dominos_detection PLATFORM_LIST_def)

lemma injection_clock: "getButtonInjectionPoint pl (p\<lparr>clock := t\<rparr>) = getButtonInjectionPoint pl p"
  by (simp add: getButtonInjectionPoint_def findElement_clock split: sum.splits option.splits)

lemma detect_mounts:
  assumes "detectCurrentPlatform (doc w) = Inr (Some pl)" and "payButton w = None"
    and "getButtonInjectionPoint pl (doc w) = Inr (Some ip)"
  shows "mounted (detectAndSetupPlatform w) = mounted w @ [(ip, createPayButton pl)]"
    and "payButton (detectAndSetupPlatform w) = Some (createPayButton pl)"
  using assms
  by (simp_all add: detectAndSetupPlatform_def setupPlatformIntegration_def injectPayButton_def
      appended_def split: option.splits)

lemma dominos_checkout_clock: "clock dominos_checkout = 1700000000000"
  by (simp add: dominos_checkout_def)

text \<open>The re-scan of the timer's callback on the Domino's checkout, with no button held.\<close>

lemma dominos_rescan_mounts:
  assumes "doc w = dominos_checkout\<lparr>clock := t\<rparr>" and "payButton w = None" and "currentPlatform w = None"
    and "records w = []"
  shows "payButton (timer_callback w) = Some ''paymint-dominos-button''"
    and "mounted (timer_callback w) = mounted w @ [(Element [] [] [], ''paymint-dominos-button'')]"
proof -
  let ?v = "w\<lparr>detectionTimeout := None, rescans := rescans w + 1\<rparr>"
  have r: "retryPlatformDetection ?v = detectAndSetupPlatform ?v"
    using assms(3) by (simp add: retryPlatformDetection_def)
  have d: "detectCurrentPlatform (doc ?v) = Inr (Some Dominos)"
    "getButtonInjectionPoint Dominos (doc ?v) = Inr (Some (Element [] [] []))"
    using assms(1)
    by (simp_all add: detect_clock injection_clock dominos_checkout_detect dominos_checkout_injection_point)
  have v: "payButton ?v = None" using assms(2) by simp
  note m = detect_mounts [OF d(1) v d(2)]
  from m r show "payButton (timer_callback w) = Some ''paymint-dominos-button''"
    and "mounted (timer_callback w) = mounted w @ [(Element [] [] [], ''paymint-dominos-button'')]"
    by (simp_all add: timer_callback_def deliver_keeps)
qed

lemma dominos_home_supported: "isSupportedDomain (hostname dominos_home)"
  by (simp add: isSupportedDomain_def PLATFORM_LIST_def dominos_home_def detection_defs ustr_def)

lemma dominos_home_detect: "detectCurrentPlatform dominos_home = Inr None"
  by (simp add: detectCurrentPlatform_def PLATFORM_LIST_def amazon_detection netflix_detection
      dominos_detection dominos_home_def detection_defs ustr_def selector_lists)

lemma rendered_dominos_state:
  "observer rendered_dominos = True"
  "currentPlatform rendered_dominos = None"
  "payButton rendered_dominos = None"
  "mounted rendered_dominos = []"
  "detectionTimeout rendered_dominos = None"
  "records rendered_dominos = []"
  "rescans rendered_dominos = 0"
  "doc rendered_dominos = dominos_checkout\<lparr>clock := 1700000000000\<rparr>"
  by (simp_all add: rendered_dominos_def fire_def deliver_def initialize_def dominos_home_supported
      blank_def detectAndSetupPlatform_def dominos_home_detect)
    (simp add: dominos_home_def)

text \<open>
  C8, as stated, fails.  On the site of Domino's the checkout has rendered after the
  script was initialised, so that no platform is detected yet.  One batch of
  mutations that adds an element sets the timer; after 1000 ms the re-scan runs and
  mounts the button; the observer reports this insertion, the timer is set again,
  and after 2000 ms \<open>retryPlatformDetection\<close> has been called twice.
\<close>

theorem rescan_after_own_insertion:
  "observer rendered_dominos
   \<and> rescans rendered_dominos = 0
   \<and> rescans (run (burst_events element_added []) rendered_dominos) = 0
   \<and> rescans (run (burst_events element_added [] @ [Elapse 1000]) rendered_dominos) = 1
   \<and> mounted (run (burst_events element_added [] @ [Elapse 1000]) rendered_dominos)
       = [(Element [] [] [], ''paymint-dominos-button'')]
   \<and> detectionTimeout (run (burst_events element_added [] @ [Elapse 1000]) rendered_dominos)
       = Some 1700000002000
   \<and> rescans (run (burst_events element_added [] @ [Elapse 2000]) rendered_dominos) = 2"
proof -
  let ?w = "fire (Mutations element_added) rendered_dominos"
  have w: "?w = rendered_dominos\<lparr>detectionTimeout := Some 1700000001000\<rparr>"
    by (simp add: fire_def deliver_def on_mutations_def rendered_dominos_state element_added_signal)
  have a: "armed ?w"
    by (simp add: w armed_def rendered_dominos_state)
  have ws: "clock (doc ?w) = 1700000000000" "payButton ?w = None" "rescans ?w = 0" "mounted ?w = []"
    by (simp_all add: w rendered_dominos_state)
  let ?wf = "at_time 1700000001000 ?w"
  have wf: "doc ?wf = dominos_checkout\<lparr>clock := 1700000001000\<rparr>" "payButton ?wf = None"
    "currentPlatform ?wf = None" "records ?wf = []" "mounted ?wf = []"
    "detectionTimeout ?wf = Some 1700000001000" "observer ?wf"
    by (simp_all add: w at_time_def rendered_dominos_state)
  note cb = dominos_rescan_mounts [OF wf(1,2,3,4)]
  note st = timer_callback_state [OF wf(4)]
  have pb: "payButton (elapse d ?w) = Some ''paymint-dominos-button''" if "1000 \<le> d" for d
    using armed_elapse(1) [OF a that] cb(1) by (simp add: ws)
  have r1: "rescans (elapse 1000 ?w) = 1" and t1: "detectionTimeout (elapse 1000 ?w) = Some 1700000002000"
    and q1: "records (elapse 1000 ?w) = []"
    using armed_elapse(2,3,4) [OF a, of 1000] pb [of 1000] by (simp_all add: ws)
  have r2: "rescans (elapse 2000 ?w) = 2" and q2: "records (elapse 2000 ?w) = []"
    using armed_elapse(2,4) [OF a, of 2000] pb [of 2000] by (simp_all add: ws)
  have e1: "elapse 1000 ?w = at_time 1700000001000 (timer_callback ?wf)"
  proof -
    have "elapse 1000 ?w = elapse 0 ?wf"
      using elapse_advance [of ?w 1700000001000 1000] by (simp add: w rendered_dominos_state)
    also have "\<dots> = elapse 0 (timer_callback ?wf)"
      by (rule elapse_due [OF wf(6)]) (simp_all add: st wf cb)
    also have "\<dots> = at_time 1700000001000 (timer_callback ?wf)"
      using elapse_idle [of "timer_callback ?wf" 0] by (simp add: st wf cb)
    finally show ?thesis .
  qed
  have m1: "mounted (elapse 1000 ?w) = [(Element [] [] [], ''paymint-dominos-button'')]"
    by (simp add: e1 at_time_keeps cb ws)
  have b: "run (burst_events element_added []) rendered_dominos = ?w"
    by simp
  have f: "run (burst_events element_added [] @ [Elapse d]) rendered_dominos = elapse d ?w"
    if "records (elapse d ?w) = []" for d
    using that by (simp add: run_append b deliver_idle del: burst_events.simps) (simp add: fire_def deliver_idle)
  from r1 r2 t1 m1 ws(3) rendered_dominos_state(1,7) show ?thesis
    unfolding b f [OF q1] f [OF q2] by simp
qed

text \<open>
  A notification is a \<open>div\<close> appended to \<open>document.body\<close>: the observer reports it as
  well, and a re-scan follows 1000 ms later.
\<close>

lemma notification_sets_timer:
  "detectionTimeout (fire (Message PAYMENT_COMPLETED) (initialize dominos_checkout)) = Some 1700000001000"
  by (simp add: fire_def deliver_def showNotification_def setPayButtonLoading_def appended_def
      on_mutations_def shouldCheck_def initialize_dominos_checkout initialize_records
      dominos_checkout_clock)

subsection \<open>Cleanup\<close>

text \<open>\<open>cleanup\<close> touches neither the detection timer nor the pending redemptions.\<close>

lemma cleanup_keeps:
  "detectionTimeout (cleanup w) = detectionTimeout w"
  "attempts (cleanup w) = attempts w"
  by (simp_all add: cleanup_def Let_def split: option.splits)

lemma unloaded_dominos_state:
  "observer unloaded_dominos = False"
  "payButton unloaded_dominos = None"
  "currentPlatform unloaded_dominos = Some Dominos"
  "mounted unloaded_dominos = []"
  "detectionTimeout unloaded_dominos = Some 1700000001000"
  "rescans unloaded_dominos = 0"
  "records unloaded_dominos = []"
  "doc unloaded_dominos = dominos_checkout\<lparr>clock := 1700000000400\<rparr>"
proof -
  let ?w0 = "initialize dominos_checkout"
  let ?w1 = "?w0\<lparr>detectionTimeout := Some 1700000001000\<rparr>"
  let ?w2 = "at_time 1700000000400 ?w1"
  have f1: "fire (Mutations element_added) ?w0 = ?w1"
    by (simp add: fire_def deliver_def on_mutations_def initialize_dominos_checkout initialize_records
        element_added_signal dominos_checkout_clock)
  have "elapse 400 ?w1 = at_time (clock (doc ?w1) + 400) ?w1"
    by (intro elapse_idle) (simp add: initialize_dominos_checkout dominos_checkout_clock)
  then have f2: "fire (Elapse 400) ?w1 = ?w2"
    by (simp add: fire_def deliver_def at_time_def initialize_records initialize_dominos_checkout
        dominos_checkout_clock)
  have u: "unloaded_dominos = deliver (cleanup ?w2)"
    by (simp add: unloaded_dominos_def f1 f2) (simp add: fire_def)
  show "observer unloaded_dominos = False"
    "payButton unloaded_dominos = None"
    "currentPlatform unloaded_dominos = Some Dominos"
    "mounted unloaded_dominos = []"
    "detectionTimeout unloaded_dominos = Some 1700000001000"
    "rescans unloaded_dominos = 0"
    "records unloaded_dominos = []"
    "doc unloaded_dominos = dominos_checkout\<lparr>clock := 1700000000400\<rparr>"
    by (simp_all add: u deliver_def cleanup_def Let_def at_time_def initialize_dominos_checkout
        initialize_records)
qed

text \<open>
  C10.  On unload every timer is to be cancelled, so that no callback fires on the
  page that was torn down.  \<open>cleanup\<close> disconnects the observer and removes the
  button, but leaves the detection timer pending: in the session \<open>unloaded_dominos\<close>
  the timer set by the mutation is still pending after the unload, and when it fires
  600 ms later the re-scan runs and mounts the button again.
\<close>

theorem cleanup_leaves_detection_timer:
  "observer unloaded_dominos = False
   \<and> payButton unloaded_dominos = None
   \<and> mounted unloaded_dominos = []
   \<and> detectionTimeout unloaded_dominos = Some 1700000001000
   \<and> rescans (fire (Elapse 600) unloaded_dominos) = 1
   \<and> mounted (fire (Elapse 600) unloaded_dominos) = [(Element [] [] [], ''paymint-dominos-button'')]"
proof -
  let ?wf = "at_time 1700000001000 unloaded_dominos"
  let ?c = "timer_callback ?wf"
  have wf: "records ?wf = []" "detectionTimeout ?wf = Some 1700000001000"
    "doc ?wf = dominos_checkout\<lparr>clock := 1700000001000\<rparr>" "observer ?wf = False"
    "mounted ?wf = []" "rescans ?wf = 0"
    by (simp_all add: at_time_def unloaded_dominos_state)
  have v: "detectCurrentPlatform (doc ?wf) = Inr (Some Dominos)"
    "getButtonInjectionPoint Dominos (doc ?wf) = Inr (Some (Element [] [] []))"
    by (simp_all add: wf detect_clock injection_clock dominos_checkout_detect
        dominos_checkout_injection_point)
  let ?v = "?wf\<lparr>detectionTimeout := None, rescans := rescans ?wf + 1\<rparr>"
  have r: "retryPlatformDetection ?v = detectAndSetupPlatform ?v"
    by (simp add: retryPlatformDetection_def at_time_def unloaded_dominos_state)
  have "mounted (detectAndSetupPlatform ?v) = mounted ?v @ [(Element [] [] [], ''paymint-dominos-button'')]"
    using detect_mounts(1) [of ?v Dominos "Element [] [] []"] v
    by (simp add: at_time_def unloaded_dominos_state)
  then have m: "mounted ?c = [(Element [] [] [], ''paymint-dominos-button'')]"
    using wf(5) r by (simp add: timer_callback_def deliver_keeps)
  note st = timer_callback_state [OF wf(1)]
  have c: "rescans ?c = 1" "records ?c = []" "detectionTimeout ?c = None"
    using st wf by simp_all
  have "elapse 600 unloaded_dominos = elapse 0 ?wf"
    using elapse_advance [of unloaded_dominos 1700000001000 600] by (simp add: unloaded_dominos_state)
  also have "\<dots> = elapse 0 ?c"
    by (rule elapse_due [OF wf(2)]) (simp_all add: wf c)
  also have "\<dots> = at_time (clock (doc ?c) + 0) ?c"
    by (intro elapse_idle) (simp add: c)
  finally have e: "elapse 600 unloaded_dominos = at_time (clock (doc ?c) + 0) ?c" .
  have "fire (Elapse 600) unloaded_dominos = at_time (clock (doc ?c) + 0) ?c"
    by (simp add: fire_def e deliver_def at_time_keeps c)
  with m c show ?thesis
    by (simp add: at_time_keeps unloaded_dominos_state)
qed

subsection \<open>Redemption commands\<close>

lemma act_keeps:
  "attempts (act a w) = attempts w" "currentPlatform (act a w) = currentPlatform w"
  "doc (act a w) = doc w" "input_value (act a w) = input_value w" "records (act a w) = records w"
  by (simp_all add: act_def)

lemma expand_next_keeps: "attempts (fst (expand_next links w)) = attempts w"
  by (cases links) (simp_all add: act_keeps)

lemma start_keeps_attempts: "attempts (fst (start pl w)) = attempts w"
  by (cases pl)
    (simp_all add: locate_def netflix_navigate_def dominos_locate_def act_keeps expand_next_keeps
      split: sum.splits option.splits)

text \<open>
  C3, as the code has it.  The script keeps no record of a redemption in flight.
  Every command to apply a gift card is acknowledged with success in the turn in
  which it arrives; when a platform is detected and the platform's \<open>applyGiftCard\<close>
  reaches its first wait, the new call joins the pending ones, however many there
  are.  Nothing is rejected and nothing is queued.
\<close>

theorem apply_command_never_rejected:
  "fst (onMessage (APPLY_GIFT_CARD d) w) = Success True
   \<and> (\<forall>pl w1 ph. currentPlatform w = Some pl \<and> start pl w = (w1, Pending ph)
        \<longrightarrow> attempts (snd (onMessage (APPLY_GIFT_CARD d) w))
            = attempts w @ [\<lparr>att_platform = pl, att_data = d, att_phase = ph\<rparr>])"
proof -
  have "attempts (snd (onMessage (APPLY_GIFT_CARD d) w))
            = attempts w @ [\<lparr>att_platform = pl, att_data = d, att_phase = ph\<rparr>]"
    if "currentPlatform w = Some pl" and "start pl w = (w1, Pending ph)" for pl w1 ph
    using that start_keeps_attempts [of pl w] by (simp add: applyGiftCard_def)
  then show ?thesis by simp
qed

lemma amazon_checkout_detect: "detectCurrentPlatform amazon_checkout = Inr (Some Amazon)"
  by (simp add: detectCurrentPlatform_def PLATFORM_LIST_def amazon_detection
      amazon_checkout_def detection_defs ustr_def)

lemma amazon_checkout_supported: "isSupportedDomain (hostname amazon_checkout)"
  by (simp add: isSupportedDomain_def PLATFORM_LIST_def amazon_checkout_def detection_defs ustr_def)

lemma amazon_checkout_chains:
  "findElement amazon_checkout amazon_giftCardSection = Inr (Some (Element [] [] []))"
  "findElement amazon_checkout amazon_giftCardInput = Inr (Some (Element [] [] []))"
  "findElement amazon_checkout amazon_applyButton = Inr (Some (Element [] [] []))"
  by (simp_all add: amazon_checkout_def selector_lists querySelector_def querySelectorAll_def
      selector_ok_def first_of_def)

lemma initialize_amazon_checkout:
  "currentPlatform (initialize amazon_checkout) = Some Amazon"
  "attempts (initialize amazon_checkout) = []"
  "input_value (initialize amazon_checkout) = []"
  "doc (initialize amazon_checkout) = amazon_checkout"
  by (simp_all add: initialize_def amazon_checkout_supported blank_def detectAndSetupPlatform_def
      amazon_checkout_detect setupPlatformIntegration_def injectPayButton_def appended_def
      split: option.splits sum.splits)

lemma apply_on_amazon_checkout:
  assumes "currentPlatform w = Some Amazon" and "doc w = amazon_checkout"
  shows "applyGiftCard d w =
     (act (ScrollTo (Element [] [] [])) w)
       \<lparr>attempts := attempts w @ [\<lparr>att_platform = Amazon, att_data = d, att_phase = Scrolled\<rparr>]\<rparr>"
  using assms by (simp add: applyGiftCard_def locate_def amazon_checkout_chains act_keeps)

lemma resume_scrolled:
  assumes "i < length (attempts w)" and "att_phase (attempts w ! i) = Scrolled"
    and "findElement (doc w) (giftCardInput (att_platform (attempts w ! i))) = Inr (Some el)"
  shows "resume i w =
     (act (Focus el) w)
       \<lparr>input_value := [],
         attempts := (attempts w)[i := (attempts w ! i)\<lparr>att_phase := Typing (code (att_data (attempts w ! i)))\<rparr>]\<rparr>"
  using assms by (simp add: resume_def Let_def act_keeps)

lemma resume_typing:
  assumes "i < length (attempts w)" and "att_phase (attempts w ! i) = Typing (c # cs)"
  shows "resume i w =
     w\<lparr>input_value := input_value w @ [c],
       attempts := (attempts w)[i := (attempts w ! i)\<lparr>att_phase := Typing cs\<rparr>]\<rparr>"
  using assms by (simp add: resume_def Let_def)

lemma two_commands_state:
  "attempts (run two_commands (initialize amazon_checkout)) =
     [\<lparr>att_platform = Amazon, att_data = gift ''AB'', att_phase = Scrolled\<rparr>,
      \<lparr>att_platform = Amazon, att_data = gift ''CD'', att_phase = Scrolled\<rparr>]"
  "doc (run two_commands (initialize amazon_checkout)) = amazon_checkout"
  "input_value (run two_commands (initialize amazon_checkout)) = []"
  "records (run two_commands (initialize amazon_checkout)) = []"
  by (simp_all add: two_commands_def fire_def deliver_idle apply_on_amazon_checkout
      initialize_amazon_checkout initialize_records act_keeps)

text \<open>
  C3, as stated, fails.  On Amazon's checkout page two commands with the codes
  \<open>AB\<close> and \<open>CD\<close> are both acknowledged with success, both calls are pending at the
  same time, and when their timers fire in turn the characters of the two codes
  alternate in the input field.
\<close>

theorem concurrent_attempts_interleave:
  "fst (onMessage (APPLY_GIFT_CARD (gift ''AB'')) (initialize amazon_checkout)) = Success True
   \<and> fst (onMessage (APPLY_GIFT_CARD (gift ''CD''))
            (snd (onMessage (APPLY_GIFT_CARD (gift ''AB'')) (initialize amazon_checkout)))) = Success True
   \<and> map att_data (attempts (run two_commands (initialize amazon_checkout))) = [gift ''AB'', gift ''CD'']
   \<and> input_value (run [Resume 0, Resume 1, Resume 0, Resume 1, Resume 0, Resume 1]
                     (run two_commands (initialize amazon_checkout))) = ustr ''ACBD''"
  by (simp add: two_commands_state fire_def deliver_idle resume_scrolled resume_typing
      amazon_checkout_chains act_keeps gift_def ustr_def)

theorem apply_command_never_rejected_witness:
  "length (attempts (snd (onMessage (APPLY_GIFT_CARD (gift ''CD''))
      (snd (onMessage (APPLY_GIFT_CARD (gift ''AB'')) (initialize amazon_checkout)))))) = 2"
proof -
  let ?w1 = "applyGiftCard (gift ''AB'') (initialize amazon_checkout)"
  have w1: "currentPlatform ?w1 = Some Amazon" "doc ?w1 = amazon_checkout"
    "attempts ?w1 = [\<lparr>att_platform = Amazon, att_data = gift ''AB'', att_phase = Scrolled\<rparr>]"
    by (simp_all add: apply_on_amazon_checkout initialize_amazon_checkout act_keeps)
  have s: "start Amazon ?w1 = (act (ScrollTo (Element [] [] [])) ?w1, Pending Scrolled)"
    by (simp add: locate_def w1 amazon_checkout_chains)
  from apply_command_never_rejected [of "gift ''CD''" ?w1] w1(1) s
  have "attempts (snd (onMessage (APPLY_GIFT_CARD (gift ''CD'')) ?w1))
      = attempts ?w1 @ [\<lparr>att_platform = Amazon, att_data = gift ''CD'', att_phase = Scrolled\<rparr>]"
    by blast
  then show ?thesis by (simp add: w1)
qed

section \<open>Verification of a redemption\<close>

text \<open>The two kinds of loop, on chains of well-formed selectors.\<close>

lemma success_loop_ok:
  "\<forall>s\<in>set sels. selector_ok s \<Longrightarrow>
     success_loop p word sels = Inr (\<exists>s\<in>set sels. has_text p word s)"
proof (induction sels)
  case Nil
  show ?case by simp
next
  case (Cons s sels)
  then show ?case
    by (cases "first_of (nodes p s)") (simp_all add: querySelector_ok has_text_def)
qed

lemma exists_loop_ok:
  "\<forall>s\<in>set sels. selector_ok s \<Longrightarrow> exists_loop p sels = Inr (\<exists>s\<in>set sels. nodes p s \<noteq> [])"
proof (induction sels)
  case Nil
  show ?case by simp
next
  case (Cons s sels)
  then show ?case
    by (cases "nodes p s") (simp_all add: querySelector_ok first_of_def)
qed

lemma dominos_price_loop_total:
  "\<forall>s\<in>set sels. selector_ok s \<Longrightarrow> \<exists>t. dominos_price_loop p sels = Inr t"
  by (induction sels) (auto simp: querySelector_ok split: option.splits)

lemma dominos_extractTotalPrice_total: "\<exists>t. dominos_extractTotalPrice p = Inr t"
proof -
  from dominos_price_loop_total [OF probes_ok(5), of p]
  obtain t where "dominos_price_loop p dominos_totalPrice = Inr t" by blast
  then show ?thesis
    by (cases t) (simp_all add: dominos_extractTotalPrice_def querySelectorAll_def selector_ok_def)
qed

lemma verify_selectors_ok:
  "\<forall>s\<in>set dominos_successSelectors. selector_ok s"
  "\<forall>s\<in>set dominos_balanceSelectors. selector_ok s"
  "\<forall>s\<in>set dominos_discountSelectors. selector_ok s"
  "\<forall>s\<in>set netflix_successSelectors. selector_ok s"
  "\<forall>s\<in>set netflix_balanceSelectors. selector_ok s"
  "\<forall>s\<in>set netflix_continueButton. selector_ok s"
  "\<forall>s\<in>set amazon_balanceSelectors. selector_ok s"
  by (simp_all add: selector_ok_def dominos_successSelectors_def dominos_balanceSelectors_def
      dominos_discountSelectors_def netflix_successSelectors_def netflix_balanceSelectors_def
      netflix_continueButton_def amazon_balanceSelectors_def)

text \<open>
  What the three verifications compute.  Domino's succeeds on a success text, a
  balance element, a positive re-extracted total or a discount line; Netflix on a
  success text, a balance element or a continue button that is not disabled.
\<close>

lemma dominos_verify_iff:
  "\<exists>newTotal. dominos_extractTotalPrice p = Inr newTotal \<and>
     dominos_verifyGiftCardApplication p =
       Inr ((\<exists>s\<in>set dominos_successSelectors. has_text p ''applied'' s)
            \<or> (\<exists>s\<in>set dominos_balanceSelectors. nodes p s \<noteq> [])
            \<or> positive_total newTotal
            \<or> (\<exists>s\<in>set dominos_discountSelectors. nodes p s \<noteq> []))"
proof -
  from dominos_extractTotalPrice_total [of p]
  obtain t where t: "dominos_extractTotalPrice p = Inr t" by blast
  show ?thesis
    by (auto simp: t dominos_verifyGiftCardApplication_def success_loop_ok exists_loop_ok
        verify_selectors_ok split: bool.splits)
qed

lemma netflix_verify_iff:
  "netflix_verifyGiftCardRedemption p =
     Inr ((\<exists>s\<in>set netflix_successSelectors. has_text p ''success'' s)
          \<or> (\<exists>s\<in>set netflix_balanceSelectors. nodes p s \<noteq> [])
          \<or> (case first_of (concat (map (nodes p) netflix_continueButton)) of
                None \<Rightarrow> False
              | Some continueButton \<Rightarrow> ''disabled'' \<notin> set (attributeNames continueButton)))"
  by (auto simp: netflix_verifyGiftCardRedemption_def success_loop_ok exists_loop_ok
      verify_selectors_ok findElement_ok split: option.splits bool.splits)

text \<open>
  Amazon: the fourth success selector uses \<open>:contains\<close>, so the first loop either
  finds a success text under one of the first three selectors or raises; the checks
  of the balance and of the total are never reached.
\<close>

lemma amazon_verify_true_or_raises:
  "amazon_verifyGiftCardApplication p =
     (if \<exists>s\<in>set (take 3 amazon_successSelectors). has_text p ''applied'' s then Inr True
      else Inl SyntaxError)"
  by (simp add: amazon_verifyGiftCardApplication_def amazon_successSelectors_def querySelector_def
      querySelectorAll_def selector_ok_def has_text_def split: option.splits)

text \<open>
  C1.  Verification is to succeed exactly when a success text, a balance or discount
  line, an "applied" indicator or a decrease of the re-extracted total is observed.
  The check that the code comments as "Check if total price decreased" only tests
  that the new total is positive.  On a Domino's page that shows nothing but the
  total, \<open>$25.99\<close> as before the submission, there is no success text, no balance
  element and no discount line, and the verification succeeds.
\<close>

theorem dominos_verify_unchanged_total:
  "dominos_extractTotalPrice dominos_total_only
     = Inr (Some \<lparr>amount = 25.99, currency = ustr ''USD''\<rparr>)
   \<and> success_loop dominos_total_only ''applied'' dominos_successSelectors = Inr False
   \<and> exists_loop dominos_total_only dominos_balanceSelectors = Inr False
   \<and> exists_loop dominos_total_only dominos_discountSelectors = Inr False
   \<and> dominos_verifyGiftCardApplication dominos_total_only = Inr True"
proof -
  have n: "nodes dominos_total_only s = [] \<longleftrightarrow> s \<noteq> ''#total-price''" for s
    by (simp add: dominos_total_only_def)
  have a: "success_loop dominos_total_only ''applied'' dominos_successSelectors = Inr False"
    by (simp add: success_loop_ok verify_selectors_ok)
      (simp add: has_text_def first_of_def dominos_total_only_def dominos_successSelectors_def)
  have b: "exists_loop dominos_total_only dominos_balanceSelectors = Inr False"
    by (simp add: exists_loop_ok verify_selectors_ok) (simp add: n dominos_balanceSelectors_def)
  have c: "exists_loop dominos_total_only dominos_discountSelectors = Inr False"
    by (simp add: exists_loop_ok verify_selectors_ok) (simp add: n dominos_discountSelectors_def)
  show ?thesis
    by (simp add: a b c dominos_verifyGiftCardApplication_def dominos_total_only_price positive_total_def)
qed

end
